theory Spec2Isabelle
  imports Main "HOL-Library.Multiset"
begin

section \<open>Faults\<close>

text \<open>
  The renderer has no error handling of its own: a failure is a JavaScript exception
  that leaves the call.  Reading a property of \<^verbatim>\<open>undefined\<close> raises a
  \<^verbatim>\<open>TypeError\<close>; an external capability may throw anything, which is
  \<open>Thrown\<close> with a message.
\<close>

datatype fault = TypeError | Thrown string

section \<open>Row faceting\<close>

text \<open>
  A dataset row maps column names to scalar values; reading a column the row does not
  have gives \<^verbatim>\<open>undefined\<close>, which is \<open>None\<close> here.  The type of
  the scalars is left open.
\<close>

type_synonym 'v Row = "string \<rightharpoonup> 'v"

text \<open>
  Modelled from the spec: the class \<^verbatim>\<open>MultistringHashMap\<close> is imported from
  \<^verbatim>\<open>../../common\<close> and is not part of the source at hand.  The spec asks for an
  ordered-tuple key with structural equality and for first-seen insertion order, so the
  map is an association list in insertion order: \<open>mhm_set\<close> on a key that is present
  replaces the value where it stands, on a new key it appends the entry.
\<close>

type_synonym ('k, 'a) MultistringHashMap = "('k list \<times> 'a) list"

definition mhm_has :: "('k, 'a) MultistringHashMap \<Rightarrow> 'k list \<Rightarrow> bool" where
  "mhm_has m k = (map_of m k \<noteq> None)"

definition mhm_get :: "('k, 'a) MultistringHashMap \<Rightarrow> 'k list \<Rightarrow> 'a option" where
  "mhm_get m k = map_of m k"

primrec mhm_set :: "('k, 'a) MultistringHashMap \<Rightarrow> 'k list \<Rightarrow> 'a \<Rightarrow> ('k, 'a) MultistringHashMap" where
  "mhm_set [] k v = [(k, v)]"
| "mhm_set (p # ps) k v = (if fst p = k then (k, v) # ps else p # mhm_set ps k v)"

definition mhm_values :: "('k, 'a) MultistringHashMap \<Rightarrow> 'a list" where
  "mhm_values m = map snd m"

text \<open>
  \<^verbatim>\<open>rows[index]\<close>: an index outside the array (negative, or past its end)
  reads \<^verbatim>\<open>undefined\<close>.
\<close>

definition row_at :: "'v Row list \<Rightarrow> int \<Rightarrow> 'v Row option" where
  "row_at rows index =
     (if 0 \<le> index \<and> nat index < length rows then Some (rows ! nat index) else None)"

text \<open>
  \<^verbatim>\<open>columns.map((c) => row[c] as string)\<close>: the callback runs once per column,
  so with no column nothing is read; with a column and an \<^verbatim>\<open>undefined\<close> row the
  first read raises.  The cast is erased at run time: the raw value is the key component.
\<close>

definition facetValues :: "'v Row list \<Rightarrow> string list \<Rightarrow> int \<Rightarrow> fault + 'v option list" where
  "facetValues rows columns index =
     (if columns = [] then Inr []
      else (case row_at rows index of
              None \<Rightarrow> Inl TypeError
            | Some row \<Rightarrow> Inr (map row columns)))"

text \<open>
  The body of the \<^verbatim>\<open>for (const index of indices)\<close> loop, with the map
  \<^verbatim>\<open>facets\<close> as the loop state.  \<^verbatim>\<open>facets.get(facetValues).push(index)\<close>
  extends the array stored under the key in place.
\<close>

fun facetRows_loop ::
  "'v Row list \<Rightarrow> string list \<Rightarrow> ('v option, int list) MultistringHashMap \<Rightarrow> int list
     \<Rightarrow> fault + ('v option, int list) MultistringHashMap" where
  "facetRows_loop rows columns facets [] = Inr facets"
| "facetRows_loop rows columns facets (index # rest) =
     (case facetValues rows columns index of
        Inl e \<Rightarrow> Inl e
      | Inr fv \<Rightarrow>
          (if mhm_has facets fv
           then (case mhm_get facets fv of
                   None \<Rightarrow> Inl TypeError
                 | Some grp \<Rightarrow> facetRows_loop rows columns (mhm_set facets fv (grp @ [index])) rest)
           else facetRows_loop rows columns (mhm_set facets fv [index]) rest))"

definition facetRows :: "'v Row list \<Rightarrow> int list \<Rightarrow> string list option \<Rightarrow> fault + int list list" where
  "facetRows rows indices columns =
     (case columns of
        None \<Rightarrow> Inr [indices]
      | Some cols \<Rightarrow>
          (case facetRows_loop rows cols [] indices of
             Inl e \<Rightarrow> Inl e
           | Inr facets \<Rightarrow> Inr (mhm_values facets)))"

text \<open>
  The order the spec calls first-seen: every value once, at the place of its first
  occurrence.
\<close>

primrec first_seen :: "'a list \<Rightarrow> 'a list" where
  "first_seen [] = []"
| "first_seen (x # xs) = x # filter (\<lambda>y. y \<noteq> x) (first_seen xs)"

text \<open>The value tuple of a row index that is in range.\<close>

definition facet_key :: "'v Row list \<Rightarrow> string list \<Rightarrow> int \<Rightarrow> 'v option list" where
  "facet_key rows columns index = map (rows ! nat index) columns"

text \<open>
  One step of the loop as a single update, used to reason about it: the index is appended
  to the group stored under the key, or starts a new group at the end.
\<close>

definition facet_step :: "('k, int list) MultistringHashMap \<Rightarrow> 'k list \<Rightarrow> int \<Rightarrow> ('k, int list) MultistringHashMap" where
  "facet_step m k i = mhm_set m k ((case map_of m k of Some g \<Rightarrow> g | None \<Rightarrow> []) @ [i])"

section \<open>The specification and the state tree\<close>

text \<open>
  Numbers are JavaScript numbers; the renderer only subtracts them and writes the literal
  \<^verbatim>\<open>0\<close>, so the number type \<open>'n\<close> is left open and \<open>-\<close> and \<open>0\<close> are whatever
  that type provides.  An attribute map is read by name
  (\<^verbatim>\<open>attributes.x as number\<close>).
\<close>

record 'n Point =
  point_x :: 'n
  point_y :: 'n

type_synonym 'n AttributeMap = "string \<Rightarrow> 'n"

text \<open>
  The properties the renderer reads: \<^verbatim>\<open>visible\<close> is the truth value the
  \<^verbatim>\<open>!\<close> test sees, the three flags are the values the casts
  \<^verbatim>\<open>as boolean\<close> assume.
\<close>

record ObjectProperties =
  visible :: bool
  enableTooltips :: bool
  enableContextMenu :: bool
  enableSelection :: bool

text \<open>
  A specification object: a chart element, a plot segment or a mark of a glyph.
  \<open>object_id\<close> is the field \<^verbatim>\<open>_id\<close>; \<open>ps_glyph\<close> is the field
  \<^verbatim>\<open>glyph\<close> of a plot segment, the id of its glyph template.
\<close>

record SpecElement =
  object_id :: string
  classID :: string
  properties :: ObjectProperties
  ps_glyph :: string

record Glyph =
  glyph_id :: string
  marks :: "SpecElement list"

record Chart =
  chart_glyphs :: "Glyph list"
  chart_elements :: "SpecElement list"

record 'n MarkState =
  mark_attributes :: "'n AttributeMap"

record 'n GlyphState =
  glyph_attributes :: "'n AttributeMap"
  glyph_marks :: "'n MarkState list"
  emphasized :: "bool option"

text \<open>
  The state of a chart element; for a plot segment it holds the glyph states and, per
  glyph, the row indices (\<^verbatim>\<open>PlotSegmentState\<close>).
\<close>

record 'n ElementState =
  attributes :: "'n AttributeMap"
  glyphs :: "'n GlyphState list"
  dataRowIndices :: "int list list"

record 'n ChartState =
  chart_attributes :: "'n AttributeMap"
  state_elements :: "'n ElementState list"

section \<open>The scene graph\<close>

text \<open>The object assigned to \<^verbatim>\<open>g.selectable\<close>.\<close>

record Selectable =
  sel_plotSegment :: SpecElement
  sel_glyphIndex :: nat
  sel_rowIndices :: "int list option"
  sel_enableTooltips :: bool
  sel_enableContextMenu :: bool
  sel_enableSelection :: bool

text \<open>
  A graphics element is a group or a primitive of a kind the renderer does not look
  into (\<open>'p\<close>); either may carry selectable metadata.  A child of a group may be
  \<^verbatim>\<open>null\<close>, which is \<open>None\<close>.
\<close>

datatype ('p, 't) Element =
    Primitive (payload: 'p) (selectable: "Selectable option")
  | Group (elements: "('p, 't) Element option list") (transform: "'t option")
          (key: "string option") (selectable: "Selectable option")

text \<open>
  Modelled from the spec: \<^verbatim>\<open>makeGroup\<close> is imported from
  \<^verbatim>\<open>../elements\<close> and is not part of the source at hand.  It makes a group of
  the given children; transform, key and selectable metadata are the optional fields of
  the spec's scene node, absent on a new group.
\<close>

definition makeGroup :: "('p, 't) Element option list \<Rightarrow> ('p, 't) Element" where
  "makeGroup es = Group es None None None"

text \<open>
  The assignments \<^verbatim>\<open>g.selectable = ...\<close>, \<^verbatim>\<open>g.transform = ...\<close>,
  \<^verbatim>\<open>g.key = ...\<close> and \<^verbatim>\<open>g.elements.push(...)\<close>.  The last three are only
  ever applied to a group the renderer has just made.
\<close>

fun set_selectable :: "('p, 't) Element \<Rightarrow> Selectable \<Rightarrow> ('p, 't) Element" where
  "set_selectable (Primitive p s) v = Primitive p (Some v)"
| "set_selectable (Group es t k s) v = Group es t k (Some v)"

fun set_transform :: "('p, 't) Element \<Rightarrow> 't \<Rightarrow> ('p, 't) Element" where
  "set_transform (Group es t k s) v = Group es (Some v) k s"
| "set_transform (Primitive p s) v = Primitive p s"

fun set_key :: "('p, 't) Element \<Rightarrow> string \<Rightarrow> ('p, 't) Element" where
  "set_key (Group es t k s) v = Group es t (Some v) s"
| "set_key (Primitive p s) v = Primitive p s"

fun push :: "('p, 't) Element \<Rightarrow> ('p, 't) Element option \<Rightarrow> ('p, 't) Element" where
  "push (Group es t k s) e = Group (es @ [e]) t k s"
| "push (Primitive p s) e = Primitive p s"

section \<open>The external capabilities\<close>

text \<open>
  The drawing capabilities are code outside the renderer; each is a parameter here, a
  function that returns its result or throws.  The manager argument the source passes
  on to them is left out.  \<open>getElementGraphics\<close> is the method
  \<^verbatim>\<open>getGraphics\<close> of a chart element class.
\<close>

record ('n, 'c, 'p, 't) MarkClass =
  object :: SpecElement
  getGraphics :: "'c \<Rightarrow> 'n Point \<Rightarrow> nat option \<Rightarrow> bool option \<Rightarrow> fault + ('p, 't) Element option"

record ('c, 'p, 't) PlotSegmentClass =
  getCoordinateSystem :: "fault + 'c"
  getPlotSegmentGraphics :: "('p, 't) Element \<Rightarrow> fault + ('p, 't) Element option"
  getPlotSegmentBackgroundGraphics :: "fault + ('p, 't) Element option"

record ('p, 't) ChartElementClass =
  getElementGraphics :: "fault + ('p, 't) Element option"

record ('p, 't) ChartClass =
  getBackgroundGraphics :: "fault + ('p, 't) Element option"

text \<open>
  \<^verbatim>\<open>Prototypes.ChartStateManager\<close>: the current dataset, chart and chart state
  (\<^verbatim>\<open>manager.dataset\<close>, \<^verbatim>\<open>manager.chart\<close>, \<^verbatim>\<open>manager.chartState\<close>) and
  the resolvers of the capabilities.
\<close>

record ('d, 'n, 'c, 'p, 't) ChartStateManager =
  mgr_dataset :: 'd
  mgr_chart :: Chart
  mgr_chartState :: "'n ChartState"
  getMarkClass :: "'n MarkState \<Rightarrow> fault + ('n, 'c, 'p, 't) MarkClass"
  getPlotSegmentClass :: "'n ElementState \<Rightarrow> fault + ('c, 'p, 't) PlotSegmentClass"
  getChartElementClass :: "'n ElementState \<Rightarrow> fault + ('p, 't) ChartElementClass"
  getChartClass :: "'n ChartState \<Rightarrow> fault + ('p, 't) ChartClass"

text \<open>
  What the renderer imports besides: the class test \<^verbatim>\<open>Prototypes.isType\<close>, the
  constructor \<^verbatim>\<open>new CartesianCoordinates(origin)\<close> and the method
  \<^verbatim>\<open>getBaseTransform\<close> of a coordinate system.
\<close>

record ('n, 'c, 't) Externals =
  isType :: "string \<Rightarrow> string \<Rightarrow> bool"
  CartesianCoordinates :: "'n Point \<Rightarrow> 'c"
  getBaseTransform :: "'c \<Rightarrow> 't"

text \<open>
  \<^verbatim>\<open>RenderEvents\<close>: the callback takes no argument and returns nothing, so
  all that matters of it is whether it is there and whether it returns or throws.
\<close>

record RenderEvents =
  afterRendered :: "(fault + unit) option"

section \<open>Runs: the calls made and the outcome\<close>

text \<open>
  A run of renderer code is the list of the calls it made to the outside, in order, and
  its outcome: a value, or the fault that ended it.
\<close>

datatype ('n, 'c, 'p, 't) Call =
    Call_getChartClass "'n ChartState"
  | Call_getBackgroundGraphics
  | Call_getPlotSegmentClass "'n ElementState"
  | Call_getCoordinateSystem
  | Call_getMarkClass "'n MarkState"
  | Call_getGraphics 'c "'n Point" "nat option" "bool option"
  | Call_getPlotSegmentGraphics "('p, 't) Element"
  | Call_getPlotSegmentBackgroundGraphics
  | Call_getChartElementClass "'n ElementState"
  | Call_getElementGraphics
  | Call_afterRendered

type_synonym ('e, 'a) Run = "'e list \<times> (fault + 'a)"

definition ret :: "'a \<Rightarrow> ('e, 'a) Run" where
  "ret x = ([], Inr x)"

definition throw :: "fault \<Rightarrow> ('e, 'a) Run" where
  "throw e = ([], Inl e)"

definition call :: "'e \<Rightarrow> fault + 'a \<Rightarrow> ('e, 'a) Run" where
  "call ev outcome = ([ev], outcome)"

text \<open>Sequencing: a fault ends the run, and the calls made so far stay made.\<close>

definition bnd :: "('e, 'a) Run \<Rightarrow> ('a \<Rightarrow> ('e, 'b) Run) \<Rightarrow> ('e, 'b) Run" where
  "bnd r k =
     (case r of
        (tr, Inl e) \<Rightarrow> (tr, Inl e)
      | (tr, Inr x) \<Rightarrow> (case k x of (tr', r') \<Rightarrow> (tr @ tr', r')))"

text \<open>
  \<^verbatim>\<open>array.map(f)\<close>, and a \<^verbatim>\<open>for\<close> loop that pushes one result per
  element: left to right, ended by the first fault.
\<close>

primrec mapM :: "('a \<Rightarrow> ('e, 'b) Run) \<Rightarrow> 'a list \<Rightarrow> ('e, 'b list) Run" where
  "mapM f [] = ret []"
| "mapM f (x # xs) = bnd (f x) (\<lambda>y. bnd (mapM f xs) (\<lambda>ys. ret (y # ys)))"

text \<open>A property of the value of a run that returns one.\<close>

definition yields :: "('a \<Rightarrow> bool) \<Rightarrow> ('e, 'a) Run \<Rightarrow> bool" where
  "yields P r = (case snd r of Inl e \<Rightarrow> True | Inr x \<Rightarrow> P x)"

section \<open>Helpers imported from the common module\<close>

text \<open>
  Modelled from the spec: \<^verbatim>\<open>zipArray\<close> is imported from
  \<^verbatim>\<open>../../common\<close> and is not part of the source at hand.  The spec pairs the
  specification and the state by index (element \<open>i\<close> with state \<open>i\<close>).
\<close>

definition zipArray :: "'a list \<Rightarrow> 'b list \<Rightarrow> ('a \<times> 'b) list" where
  "zipArray a b = zip a b"

text \<open>
  Modelled from the spec: \<^verbatim>\<open>transpose\<close> is imported from
  \<^verbatim>\<open>../../common\<close> and is not part of the source at hand.  The spec turns the
  instance-by-mark matrix into a mark-by-instance matrix, layer \<open>k\<close> being the
  \<open>k\<close>-th slot of every instance in instance order; the number of layers is the length
  of the first row, and a matrix with no row has no layer.  A slot a row does not have
  reads \<^verbatim>\<open>undefined\<close>, which is \<open>None\<close> as \<^verbatim>\<open>null\<close> is.
\<close>

definition nth_or_undefined :: "'a option list \<Rightarrow> nat \<Rightarrow> 'a option" where
  "nth_or_undefined row j = (if j < length row then row ! j else None)"

definition transpose_arr :: "'a option list list \<Rightarrow> 'a option list list" where
  "transpose_arr matrix =
     (case matrix of
        [] \<Rightarrow> []
      | first # _ \<Rightarrow> map (\<lambda>j. map (\<lambda>row. nth_or_undefined row j) matrix) [0..<length first])"

text \<open>
  Modelled from the spec: \<^verbatim>\<open>getById\<close> is imported from
  \<^verbatim>\<open>../../common\<close> and is not part of the source at hand.  It resolves a glyph
  template by its id; an unknown id gives nothing.
\<close>

definition getById :: "Glyph list \<Rightarrow> string \<Rightarrow> Glyph option" where
  "getById array i = find (\<lambda>item. glyph_id item = i) array"

section \<open>The renderer\<close>

text \<open>
  \<^verbatim>\<open>plotSegmentState.dataRowIndices[index]\<close>: \<^verbatim>\<open>undefined\<close> past the end.
\<close>

definition rowIndices_at :: "int list list \<Rightarrow> nat \<Rightarrow> int list option" where
  "rowIndices_at xs i = (if i < length xs then Some (xs ! i) else None)"

text \<open>
  The arrow function of \<^verbatim>\<open>renderGlyphMarks\<close>, applied to one pair
  \<^verbatim>\<open>[mark, markState]\<close>.
\<close>

definition renderGlyphMark ::
  "('d, 'n, 'c, 'p, 't) ChartStateManager \<Rightarrow> SpecElement \<Rightarrow> 'n ElementState \<Rightarrow> 'c \<Rightarrow> 'n Point
     \<Rightarrow> 'n GlyphState \<Rightarrow> nat \<Rightarrow> SpecElement \<times> 'n MarkState
     \<Rightarrow> (('n, 'c, 'p, 't) Call, ('p, 't) Element option) Run" where
  "renderGlyphMark manager plotSegment plotSegmentState coordinateSystem offset state index pair =
     (case pair of (mark, markState) \<Rightarrow>
        if \<not> visible (properties mark) then ret None
        else
          bnd (call (Call_getMarkClass markState) (getMarkClass manager markState)) (\<lambda>cls.
          bnd (call (Call_getGraphics coordinateSystem offset (Some index) (emphasized state))
                 (getGraphics cls coordinateSystem offset (Some index) (emphasized state))) (\<lambda>g.
          (case g of
             Some g' \<Rightarrow>
               ret (Some (makeGroup [Some (set_selectable g'
                 \<lparr> sel_plotSegment = plotSegment,
                   sel_glyphIndex = index,
                   sel_rowIndices = rowIndices_at (dataRowIndices plotSegmentState) index,
                   sel_enableTooltips = enableTooltips (properties (object cls)),
                   sel_enableContextMenu = enableContextMenu (properties (object cls)),
                   sel_enableSelection = enableSelection (properties (object cls)) \<rparr>)]))
           | None \<Rightarrow> ret None))))"

text \<open>
  The object literal assigned to \<^verbatim>\<open>g.selectable\<close> in \<open>renderGlyphMark\<close>, as a
  function of what it is built from, to name it in statements.
\<close>

definition selectableFor ::
  "SpecElement \<Rightarrow> 'n ElementState \<Rightarrow> nat \<Rightarrow> ('n, 'c, 'p, 't) MarkClass \<Rightarrow> Selectable" where
  "selectableFor plotSegment plotSegmentState index cls =
     \<lparr> sel_plotSegment = plotSegment,
       sel_glyphIndex = index,
       sel_rowIndices = rowIndices_at (dataRowIndices plotSegmentState) index,
       sel_enableTooltips = enableTooltips (properties (object cls)),
       sel_enableContextMenu = enableContextMenu (properties (object cls)),
       sel_enableSelection = enableSelection (properties (object cls)) \<rparr>"

text \<open>
  \<^verbatim>\<open>renderGlyphMarks\<close>.  The glyph comes from \<open>getById\<close>; reading
  \<^verbatim>\<open>glyph.marks\<close> of a glyph that was not found raises.
\<close>

definition renderGlyphMarks ::
  "('d, 'n, 'c, 'p, 't) ChartStateManager \<Rightarrow> SpecElement \<Rightarrow> 'n ElementState \<Rightarrow> 'c \<Rightarrow> 'n Point
     \<Rightarrow> Glyph option \<Rightarrow> 'n GlyphState \<Rightarrow> nat
     \<Rightarrow> (('n, 'c, 'p, 't) Call, ('p, 't) Element option list) Run" where
  "renderGlyphMarks manager plotSegment plotSegmentState coordinateSystem offset glyph state index =
     (case glyph of
        None \<Rightarrow> throw TypeError
      | Some gl \<Rightarrow>
          mapM (renderGlyphMark manager plotSegment plotSegmentState coordinateSystem offset state index)
            (zipArray (marks gl) (glyph_marks state)))"

text \<open>
  The body of the loop over \<^verbatim>\<open>plotSegmentState.glyphs.entries()\<close> in
  \<^verbatim>\<open>renderChart\<close>.  \<^verbatim>\<open>glyphState.marks[0].attributes\<close> raises when the
  glyph state has no mark state.
\<close>

definition renderGlyph ::
  "('d, 'n::minus, 'c, 'p, 't) ChartStateManager \<Rightarrow> SpecElement \<Rightarrow> 'n ElementState \<Rightarrow> 'c
     \<Rightarrow> Glyph option \<Rightarrow> nat \<times> 'n GlyphState
     \<Rightarrow> (('n, 'c, 'p, 't) Call, ('p, 't) Element option list) Run" where
  "renderGlyph manager plotSegment plotSegmentState coordinateSystem mark entry =
     (case entry of (glyphIndex, glyphState) \<Rightarrow>
        (case glyph_marks glyphState of
           [] \<Rightarrow> throw TypeError
         | first # _ \<Rightarrow>
             (let anchorX = mark_attributes first ''x'';
                  anchorY = mark_attributes first ''y'';
                  offsetX = glyph_attributes glyphState ''x'' - anchorX;
                  offsetY = glyph_attributes glyphState ''y'' - anchorY
              in renderGlyphMarks manager plotSegment plotSegmentState coordinateSystem
                   \<lparr> point_x = offsetX, point_y = offsetY \<rparr> mark glyphState glyphIndex)))"

text \<open>
  \<^verbatim>\<open>transpose(glyphArrays).map((x) => makeGroup(x))\<close>, wrapped in the group
  \<^verbatim>\<open>gGlyphs\<close> with the base transform of the coordinate system.
\<close>

definition glyphLayers :: "('n, 'c, 't) Externals \<Rightarrow> 'c \<Rightarrow> ('p, 't) Element option list list \<Rightarrow> ('p, 't) Element" where
  "glyphLayers ext coordinateSystem glyphArrays =
     (let glyphElements = map (\<lambda>x. Some (makeGroup x)) (transpose_arr glyphArrays);
          gGlyphs = makeGroup glyphElements
      in set_transform gGlyphs (getBaseTransform ext coordinateSystem))"

text \<open>
  The state of a chart element of mark kind is handed to \<open>getMarkClass\<close> as a mark
  state: the same object, read through its attributes.
\<close>

definition markStateOf :: "'n ElementState \<Rightarrow> 'n MarkState" where
  "markStateOf elementState = \<lparr> mark_attributes = attributes elementState \<rparr>"

text \<open>
  The three branches of the loop body of \<^verbatim>\<open>renderChart\<close> for a visible element;
  the value is the group \<^verbatim>\<open>gElement\<close> that the loop pushes.
\<close>

definition renderElement ::
  "('n::{minus,zero}, 'c, 't) Externals \<Rightarrow> ('d, 'n, 'c, 'p, 't) ChartStateManager \<Rightarrow> Chart
     \<Rightarrow> SpecElement \<times> 'n ElementState \<Rightarrow> (('n, 'c, 'p, 't) Call, ('p, 't) Element) Run" where
  "renderElement ext manager chart pair =
     (case pair of (element, elementState) \<Rightarrow>
        if isType ext (classID element) ''plot-segment'' then
          (let plotSegment = element;
               plotSegmentState = elementState;
               mark = getById (chart_glyphs chart) (ps_glyph plotSegment)
           in
           bnd (call (Call_getPlotSegmentClass plotSegmentState)
                  (getPlotSegmentClass manager plotSegmentState)) (\<lambda>plotSegmentClass.
           bnd (call Call_getCoordinateSystem (getCoordinateSystem plotSegmentClass)) (\<lambda>coordinateSystem.
           bnd (mapM (renderGlyph manager plotSegment plotSegmentState coordinateSystem mark)
                  (enumerate 0 (glyphs plotSegmentState))) (\<lambda>glyphArrays.
           (let gGlyphs = glyphLayers ext coordinateSystem glyphArrays in
           bnd (call (Call_getPlotSegmentGraphics gGlyphs)
                  (getPlotSegmentGraphics plotSegmentClass gGlyphs)) (\<lambda>g.
           bnd (call Call_getPlotSegmentBackgroundGraphics
                  (getPlotSegmentBackgroundGraphics plotSegmentClass)) (\<lambda>plotSegmentBackgroundElements.
           (let gBackgroundElements = push (makeGroup []) plotSegmentBackgroundElements;
                gElement = push (push (makeGroup []) (Some gBackgroundElements)) g
            in ret (set_key gElement (object_id element))))))))))
        else if isType ext (classID element) ''mark'' then
          (let cs = CartesianCoordinates ext \<lparr> point_x = 0, point_y = 0 \<rparr> in
           bnd (call (Call_getMarkClass (markStateOf elementState))
                  (getMarkClass manager (markStateOf elementState))) (\<lambda>elementClass.
           bnd (call (Call_getGraphics cs \<lparr> point_x = 0, point_y = 0 \<rparr> None None)
                  (getGraphics elementClass cs \<lparr> point_x = 0, point_y = 0 \<rparr> None None)) (\<lambda>g.
           ret (set_key (push (makeGroup []) g) (object_id element)))))
        else
          bnd (call (Call_getChartElementClass elementState)
                 (getChartElementClass manager elementState)) (\<lambda>elementClass.
          bnd (call Call_getElementGraphics (getElementGraphics elementClass)) (\<lambda>g.
          ret (set_key (push (makeGroup []) g) (object_id element)))))"

text \<open>
  The loop \<^verbatim>\<open>for (const [element, elementState] of elementsAndStates)\<close> with the
  array \<^verbatim>\<open>graphics\<close> as its state; an invisible element is skipped
  (\<^verbatim>\<open>continue\<close>).
\<close>

fun renderElements ::
  "('n::{minus,zero}, 'c, 't) Externals \<Rightarrow> ('d, 'n, 'c, 'p, 't) ChartStateManager \<Rightarrow> Chart
     \<Rightarrow> ('p, 't) Element option list \<Rightarrow> (SpecElement \<times> 'n ElementState) list
     \<Rightarrow> (('n, 'c, 'p, 't) Call, ('p, 't) Element option list) Run" where
  "renderElements ext manager chart graphics [] = ret graphics"
| "renderElements ext manager chart graphics ((element, elementState) # rest) =
     (if \<not> visible (properties element) then renderElements ext manager chart graphics rest
      else bnd (renderElement ext manager chart (element, elementState)) (\<lambda>gElement.
           renderElements ext manager chart (graphics @ [Some gElement]) rest))"

text \<open>
  \<^verbatim>\<open>renderChart\<close>.  \<^verbatim>\<open>if (bg)\<close> holds for every object, so the background
  is pushed exactly when the chart class returns one.  The dataset is a parameter that
  the body never reads.
\<close>

definition renderChart ::
  "('n::{minus,zero}, 'c, 't) Externals \<Rightarrow> ('d, 'n, 'c, 'p, 't) ChartStateManager
     \<Rightarrow> 'd \<Rightarrow> Chart \<Rightarrow> 'n ChartState \<Rightarrow> (('n, 'c, 'p, 't) Call, ('p, 't) Element) Run" where
  "renderChart ext manager dataset chart chartState =
     bnd (call (Call_getChartClass chartState) (getChartClass manager chartState)) (\<lambda>chartClass.
     bnd (call Call_getBackgroundGraphics (getBackgroundGraphics chartClass)) (\<lambda>bg.
     (let graphics = (case bg of Some b \<Rightarrow> [Some b] | None \<Rightarrow> []);
          linkGroup = makeGroup [];
          graphics = graphics @ [Some linkGroup];
          elementsAndStates = zipArray (chart_elements chart) (state_elements chartState)
      in bnd (renderElements ext manager chart graphics elementsAndStates) (\<lambda>graphics.
         ret (makeGroup graphics)))))"

text \<open>
  \<^verbatim>\<open>render\<close>.  \<^verbatim>\<open>this.renderEvents?.afterRendered\<close> is tested after
  \<^verbatim>\<open>renderChart\<close> has returned; if the callback throws, so does \<^verbatim>\<open>render\<close>.
\<close>

definition render ::
  "('n::{minus,zero}, 'c, 't) Externals \<Rightarrow> ('d, 'n, 'c, 'p, 't) ChartStateManager
     \<Rightarrow> RenderEvents option \<Rightarrow> (('n, 'c, 'p, 't) Call, ('p, 't) Element) Run" where
  "render ext manager renderEvents =
     bnd (renderChart ext manager (mgr_dataset manager) (mgr_chart manager) (mgr_chartState manager)) (\<lambda>grp.
     (case renderEvents of
        None \<Rightarrow> ret grp
      | Some events \<Rightarrow>
          (case afterRendered events of
             None \<Rightarrow> ret grp
           | Some outcome \<Rightarrow> bnd (call Call_afterRendered outcome) (\<lambda>_. ret grp))))"


section \<open>A small chart\<close>

text \<open>The rows of the spec's faceting example.\<close>

definition ex_rows :: "string Row list" where
  "ex_rows = [[''c'' \<mapsto> ''a''], [''c'' \<mapsto> ''b''], [''c'' \<mapsto> ''a'']]"

text \<open>
  A chart with one plot segment, one standalone mark and one invisible element.  The
  glyph template has a visible and an invisible mark; the plot segment has two glyph
  instances, at (12, 9) and (20, 30), whose first mark is anchored at (5, 5).  The three
  flags of the plot segment differ from those of the marks.
\<close>

definition ex_plotSegment :: SpecElement where
  "ex_plotSegment =
     \<lparr> object_id = ''ps1'', classID = ''plot-segment.cartesian'',
       properties = \<lparr> visible = True, enableTooltips = False, enableContextMenu = True,
                      enableSelection = False \<rparr>,
       ps_glyph = ''g1'' \<rparr>"

definition ex_mark :: "string \<Rightarrow> bool \<Rightarrow> SpecElement" where
  "ex_mark i v =
     \<lparr> object_id = i, classID = ''mark.rect'',
       properties = \<lparr> visible = v, enableTooltips = True, enableContextMenu = False,
                      enableSelection = True \<rparr>,
       ps_glyph = [] \<rparr>"

definition ex_legend :: SpecElement where
  "ex_legend =
     \<lparr> object_id = ''legend'', classID = ''legend.custom'',
       properties = \<lparr> visible = False, enableTooltips = False, enableContextMenu = False,
                      enableSelection = False \<rparr>,
       ps_glyph = [] \<rparr>"

definition ex_glyph :: Glyph where
  "ex_glyph = \<lparr> glyph_id = ''g1'', marks = [ex_mark ''m1'' True, ex_mark ''m2'' False] \<rparr>"

definition ex_chart :: Chart where
  "ex_chart =
     \<lparr> chart_glyphs = [ex_glyph],
       chart_elements = [ex_plotSegment, ex_mark ''title'' True, ex_legend] \<rparr>"

definition ex_attributes :: "int \<Rightarrow> int \<Rightarrow> int AttributeMap" where
  "ex_attributes a b = (\<lambda>_. 0)(''x'' := a, ''y'' := b)"

definition ex_glyphState :: "int \<Rightarrow> int \<Rightarrow> int GlyphState" where
  "ex_glyphState a b =
     \<lparr> glyph_attributes = ex_attributes a b,
       glyph_marks = [\<lparr> mark_attributes = ex_attributes 5 5 \<rparr>, \<lparr> mark_attributes = ex_attributes 6 6 \<rparr>],
       emphasized = None \<rparr>"

definition ex_plotSegmentState :: "int ElementState" where
  "ex_plotSegmentState =
     \<lparr> attributes = ex_attributes 0 0,
       glyphs = [ex_glyphState 12 9, ex_glyphState 20 30],
       dataRowIndices = [[0, 2], [1]] \<rparr>"

definition ex_elementState :: "int \<Rightarrow> int ElementState" where
  "ex_elementState a = \<lparr> attributes = ex_attributes a a, glyphs = [], dataRowIndices = [] \<rparr>"

definition ex_chartState :: "int ChartState" where
  "ex_chartState =
     \<lparr> chart_attributes = ex_attributes 0 0,
       state_elements = [ex_plotSegmentState, ex_elementState 1, ex_elementState 2] \<rparr>"

text \<open>
  Capabilities for it.  The mark class of a state is told by the state's \<open>x\<close>: the
  first mark of the glyph is anchored at 5, the second at 6, the title at 1.  The first
  mark draws a rectangle, the others decline; the plot segment class passes the glyph
  layers on; the chart has a background.
\<close>

definition ex_markClass :: "int MarkState \<Rightarrow> (int, string, string, string) MarkClass" where
  "ex_markClass st =
     \<lparr> object =
         (if mark_attributes st ''x'' = 5 then ex_mark ''m1'' True
          else if mark_attributes st ''x'' = 6 then ex_mark ''m2'' False
          else ex_mark ''title'' True),
       getGraphics = (\<lambda>cs off i e.
         if mark_attributes st ''x'' = 5 then Inr (Some (Primitive ''rect'' None)) else Inr None) \<rparr>"

definition ex_manager :: "Chart \<Rightarrow> int ChartState \<Rightarrow> (unit, int, string, string, string) ChartStateManager" where
  "ex_manager ch st =
     \<lparr> mgr_dataset = (), mgr_chart = ch, mgr_chartState = st,
       getMarkClass = (\<lambda>ms. Inr (ex_markClass ms)),
       getPlotSegmentClass = (\<lambda>es. Inr
         \<lparr> getCoordinateSystem = Inr ''polar'',
           getPlotSegmentGraphics = (\<lambda>g. Inr (Some g)),
           getPlotSegmentBackgroundGraphics = Inr None \<rparr>),
       getChartElementClass = (\<lambda>es. Inr \<lparr> getElementGraphics = Inr None \<rparr>),
       getChartClass = (\<lambda>cs. Inr \<lparr> getBackgroundGraphics = Inr (Some (Primitive ''background'' None)) \<rparr>) \<rparr>"

text \<open>The same manager with a chart class that cannot be resolved.\<close>

definition ex_brokenManager :: "Chart \<Rightarrow> int ChartState \<Rightarrow> (unit, int, string, string, string) ChartStateManager" where
  "ex_brokenManager ch st = (ex_manager ch st) \<lparr> getChartClass := (\<lambda>cs. Inl (Thrown ''no chart class'')) \<rparr>"

text \<open>Class ids are dotted paths, and a class is of a type when the type is a prefix of its id.\<close>

definition ex_ext :: "(int, string, string) Externals" where
  "ex_ext =
     \<lparr> isType = (\<lambda>c t. take (length t) c = t),
       CartesianCoordinates = (\<lambda>p. ''cartesian''),
       getBaseTransform = (\<lambda>c. ''base'') \<rparr>"

text \<open>A chart whose only element is invisible, and its state.\<close>

definition ex_hiddenChart :: Chart where
  "ex_hiddenChart = \<lparr> chart_glyphs = [], chart_elements = [ex_legend] \<rparr>"

definition ex_hiddenState :: "int ChartState" where
  "ex_hiddenState = \<lparr> chart_attributes = ex_attributes 0 0, state_elements = [ex_elementState 2] \<rparr>"

section \<open>Properties of row faceting\<close>

subsection \<open>The association list\<close>

lemma mhm_set_keys:
  "map fst (mhm_set m k v) = (if k \<in> set (map fst m) then map fst m else map fst m @ [k])"
  by (induction m) auto

lemma mhm_set_lookup:
  "map_of (mhm_set m k v) k' = (if k' = k then Some v else map_of m k')"
  by (induction m) auto

lemma first_seen_set: "set (first_seen xs) = set xs"
  by (induction xs) auto

lemma first_seen_distinct: "distinct (first_seen xs)"
  by (induction xs) auto

subsection \<open>The loop\<close>

lemma facetRows_loop_step:
  "facetValues rows columns i = Inr k \<Longrightarrow>
   facetRows_loop rows columns m (i # rest) = facetRows_loop rows columns (facet_step m k i) rest"
  by (auto simp: facet_step_def mhm_has_def mhm_get_def split: option.splits)

lemma facet_step_keys:
  "map fst (facet_step m k i) = (if k \<in> set (map fst m) then map fst m else map fst m @ [k])"
  by (simp add: facet_step_def mhm_set_keys)

lemma facet_step_lookup:
  "map_of (facet_step m k i) k' =
     (if k' = k then Some ((case map_of m k of Some g \<Rightarrow> g | None \<Rightarrow> []) @ [i]) else map_of m k')"
  by (simp add: facet_step_def mhm_set_lookup)

lemma facetRows_loop_total:
  "\<forall>i\<in>set is. facetValues rows columns i = Inr (f i) \<Longrightarrow>
   \<exists>m'. facetRows_loop rows columns m is = Inr m'"
proof (induction "is" arbitrary: m)
  case Nil
  show ?case by simp
next
  case (Cons i rest)
  have "facetValues rows columns i = Inr (f i)" using Cons.prems by simp
  then show ?case using Cons.IH Cons.prems by (simp only: facetRows_loop_step) simp
qed

lemma facetRows_loop_keys:
  "\<forall>i\<in>set is. facetValues rows columns i = Inr (f i) \<Longrightarrow>
   facetRows_loop rows columns m is = Inr m' \<Longrightarrow>
   map fst m' = map fst m @ filter (\<lambda>k. k \<notin> set (map fst m)) (first_seen (map f is))"
proof (induction "is" arbitrary: m)
  case Nil
  then show ?case by simp
next
  case (Cons i rest)
  have fv: "facetValues rows columns i = Inr (f i)" using Cons.prems by simp
  have run: "facetRows_loop rows columns (facet_step m (f i) i) rest = Inr m'"
    using Cons.prems(2) by (simp only: facetRows_loop_step [OF fv])
  have rest: "\<forall>j\<in>set rest. facetValues rows columns j = Inr (f j)" using Cons.prems(1) by simp
  note ih = Cons.IH [OF rest run]
  show ?case
  proof (cases "f i \<in> set (map fst m)")
    case True
    then have "\<And>x. (x \<noteq> f i \<and> x \<notin> set (map fst m)) = (x \<notin> set (map fst m))"
      by auto
    then show ?thesis using ih True
      by (simp add: facet_step_keys del: set_map)
  next
    case False
    have "\<And>x. (x \<notin> set (map fst m) \<and> x \<noteq> f i) = (x \<noteq> f i \<and> x \<notin> set (map fst m))"
      by auto
    then show ?thesis using ih False
      by (simp add: facet_step_keys del: set_map)
  qed
qed

lemma facetRows_loop_lookup:
  "\<forall>i\<in>set is. facetValues rows columns i = Inr (f i) \<Longrightarrow>
   facetRows_loop rows columns m is = Inr m' \<Longrightarrow>
   map_of m' k =
     (case map_of m k of
        Some g \<Rightarrow> Some (g @ filter (\<lambda>i. f i = k) is)
      | None \<Rightarrow> if k \<in> f ` set is then Some (filter (\<lambda>i. f i = k) is) else None)"
proof (induction "is" arbitrary: m)
  case Nil
  then show ?case by (simp split: option.splits)
next
  case (Cons i rest)
  have fv: "facetValues rows columns i = Inr (f i)" using Cons.prems by simp
  have run: "facetRows_loop rows columns (facet_step m (f i) i) rest = Inr m'"
    using Cons.prems(2) by (simp only: facetRows_loop_step [OF fv])
  have rest: "\<forall>j\<in>set rest. facetValues rows columns j = Inr (f j)" using Cons.prems(1) by simp
  note ih = Cons.IH [OF rest run]
  show ?case
    unfolding ih by (auto simp: facet_step_lookup split: option.splits)
qed


lemma map_snd_by_lookup:
  "distinct (map fst m) \<Longrightarrow> map snd m = map (\<lambda>k. the (map_of m k)) (map fst m)"
proof -
  assume d: "distinct (map fst m)"
  have "\<And>p. p \<in> set m \<Longrightarrow> snd p = the (map_of m (fst p))"
  proof -
    fix p assume "p \<in> set m"
    then have "(fst p, snd p) \<in> set m" by simp
    from map_of_is_SomeI [OF d this] show "snd p = the (map_of m (fst p))" by simp
  qed
  then show ?thesis by (simp add: comp_def)
qed

lemma facetRows_groups:
  assumes ok: "\<forall>i\<in>set indices. facetValues rows cols i = Inr (f i)"
  shows "facetRows rows indices (Some cols) =
           Inr (map (\<lambda>k. filter (\<lambda>i. f i = k) indices) (first_seen (map f indices)))"
proof -
  from facetRows_loop_total [OF ok] obtain m'
    where run: "facetRows_loop rows cols [] indices = Inr m'" by blast
  have keys: "map fst m' = first_seen (map f indices)"
    using facetRows_loop_keys [OF ok run] by simp
  then have d: "distinct (map fst m')" by (simp add: first_seen_distinct)
  have look: "\<And>k. k \<in> set (map fst m') \<Longrightarrow> the (map_of m' k) = filter (\<lambda>i. f i = k) indices"
  proof -
    fix k assume "k \<in> set (map fst m')"
    then have "k \<in> f ` set indices" unfolding keys by (simp add: first_seen_set)
    then show "the (map_of m' k) = filter (\<lambda>i. f i = k) indices"
      using facetRows_loop_lookup [OF ok run, of k] by simp
  qed
  have "map snd m' = map (\<lambda>k. the (map_of m' k)) (map fst m')"
    by (rule map_snd_by_lookup [OF d])
  also have "\<dots> = map (\<lambda>k. filter (\<lambda>i. f i = k) indices) (map fst m')"
    using look by (intro map_cong) auto
  finally show ?thesis
    by (simp add: facetRows_def run mhm_values_def keys)
qed

lemma mset_filter_disjoint:
  "(\<And>x. x \<in> set xs \<Longrightarrow> \<not> (P x \<and> Q x)) \<Longrightarrow>
   mset (filter P xs) + mset (filter Q xs) = mset (filter (\<lambda>x. P x \<or> Q x) xs)"
  by (induction xs) auto

lemma mset_concat_groups:
  "distinct ks \<Longrightarrow>
   mset (concat (map (\<lambda>k. filter (\<lambda>i. f i = k) xs) ks)) = mset (filter (\<lambda>i. f i \<in> set ks) xs)"
proof (induction ks)
  case Nil
  show ?case by simp
next
  case (Cons k ks)
  have "mset (filter (\<lambda>i. f i = k) xs) + mset (filter (\<lambda>i. f i \<in> set ks) xs)
      = mset (filter (\<lambda>i. f i = k \<or> f i \<in> set ks) xs)"
    using Cons.prems by (intro mset_filter_disjoint) auto
  then show ?case using Cons by (simp del: mset_filter)
qed

lemma hd_filter_key:
  "k \<in> f ` set xs \<Longrightarrow> f (hd (filter (\<lambda>i. f i = k) xs)) = k"
proof -
  assume "k \<in> f ` set xs"
  then have ne: "filter (\<lambda>i. f i = k) xs \<noteq> []" by (auto simp: filter_empty_conv)
  then have "hd (filter (\<lambda>i. f i = k) xs) \<in> set (filter (\<lambda>i. f i = k) xs)" by (rule hd_in_set)
  then show ?thesis by simp
qed

subsection \<open>The claims on faceting\<close>

text \<open>
  C8: with no columns (\<^verbatim>\<open>columns == null\<close>) \<open>facetRows\<close> returns exactly one
  group, the index list it was given, in its order.  No row is read: the result is the
  same for every row collection, also for one that has none of the indices.
\<close>

theorem facetRows_no_columns:
  "facetRows rows indices None = Inr [indices]"
  by (simp add: facetRows_def)

text \<open>
  C3: with a list of columns, and indices that are indices of rows, \<open>facetRows\<close>
  returns a partition of the indices: the groups together hold every index as often as
  the input does, they are pairwise disjoint and none is empty, their union is the set
  of the indices; two indices are in the same group exactly when their rows have the same
  values at the columns; the groups stand in the order in which their value tuples are
  first seen, and each group holds its indices in the order of the traversal.
\<close>

theorem facetRows_partition:
  assumes valid: "\<forall>i\<in>set indices. 0 \<le> i \<and> nat i < length rows"
  shows "\<exists>groups.
           facetRows rows indices (Some columns) = Inr groups \<and>
           mset (concat groups) = mset indices \<and>
           \<Union> (set ` set groups) = set indices \<and>
           (\<forall>a<length groups. \<forall>b<length groups. a \<noteq> b \<longrightarrow> set (groups ! a) \<inter> set (groups ! b) = {}) \<and>
           [] \<notin> set groups \<and>
           (\<forall>g\<in>set groups. \<forall>i\<in>set g. \<forall>j\<in>set indices.
              (j \<in> set g) = (facet_key rows columns j = facet_key rows columns i)) \<and>
           map (\<lambda>g. facet_key rows columns (hd g)) groups = first_seen (map (facet_key rows columns) indices) \<and>
           (\<forall>g\<in>set groups. g = filter (\<lambda>j. facet_key rows columns j = facet_key rows columns (hd g)) indices)"
proof -
  let ?f = "facet_key rows columns"
  let ?ks = "first_seen (map ?f indices)"
  let ?G = "\<lambda>k. filter (\<lambda>i. ?f i = k) indices"
  have ok: "\<forall>i\<in>set indices. facetValues rows columns i = Inr (?f i)"
    using valid by (simp add: facetValues_def facet_key_def row_at_def)
  have run: "facetRows rows indices (Some columns) = Inr (map ?G ?ks)"
    by (rule facetRows_groups [OF ok])
  have d: "distinct ?ks" by (rule first_seen_distinct)
  have ks: "set ?ks = ?f ` set indices" by (simp add: first_seen_set)
  have p1: "mset (concat (map ?G ?ks)) = mset indices"
  proof -
    have "filter (\<lambda>i. ?f i \<in> set ?ks) indices = indices"
      unfolding ks by (simp add: filter_id_conv)
    with mset_concat_groups [OF d, of ?f indices] show ?thesis by simp
  qed
  have p2: "\<Union> (set ` set (map ?G ?ks)) = set indices"
    using ks by auto
  have p3: "\<forall>a<length (map ?G ?ks). \<forall>b<length (map ?G ?ks). a \<noteq> b \<longrightarrow>
              set (map ?G ?ks ! a) \<inter> set (map ?G ?ks ! b) = {}"
  proof (intro allI impI)
    fix a b assume a: "a < length (map ?G ?ks)" and b: "b < length (map ?G ?ks)" and "a \<noteq> b"
    with d have "?ks ! a \<noteq> ?ks ! b" by (simp add: nth_eq_iff_index_eq)
    with a b show "set (map ?G ?ks ! a) \<inter> set (map ?G ?ks ! b) = {}" by auto
  qed
  have p4: "[] \<notin> set (map ?G ?ks)"
  proof
    assume "[] \<in> set (map ?G ?ks)"
    then obtain k where k: "k \<in> set ?ks" and e: "?G k = []" by auto
    from k obtain i where "i \<in> set indices" "?f i = k" unfolding ks by auto
    then have "i \<in> set (?G k)" by simp
    with e show False by simp
  qed
  have p5: "\<forall>g\<in>set (map ?G ?ks). \<forall>i\<in>set g. \<forall>j\<in>set indices. (j \<in> set g) = (?f j = ?f i)"
    by auto
  have hdk: "\<And>k. k \<in> set ?ks \<Longrightarrow> ?f (hd (?G k)) = k"
    unfolding ks by (rule hd_filter_key)
  have p6: "map (\<lambda>g. ?f (hd g)) (map ?G ?ks) = ?ks"
    using hdk by (simp add: comp_def map_idI)
  have p7: "\<forall>g\<in>set (map ?G ?ks). g = filter (\<lambda>j. ?f j = ?f (hd g)) indices"
    using hdk by auto
  from run p1 p2 p3 p4 p5 p6 p7 show ?thesis by blast
qed

text \<open>The spec's example: three rows with the values a, b, a at column c.\<close>

theorem facetRows_partition_witness:
  "facetRows ex_rows [0, 1, 2] (Some [''c'']) = Inr [[0, 2], [1]] \<and>
   mset (concat [[0, 2], [1 :: int]]) = mset [0, 1, 2] \<and>
   map (\<lambda>g. facet_key ex_rows [''c''] (hd g)) [[0, 2], [1]] = [[Some ''a''], [Some ''b'']]"
proof -
  have valid: "\<forall>i\<in>set [0, 1, 2 :: int]. 0 \<le> i \<and> nat i < length ex_rows"
    by (simp add: ex_rows_def)
  have eval: "facetRows ex_rows [0, 1, 2] (Some [''c'']) = Inr [[0, 2], [1]]"
    by (simp add: facetRows_def facetValues_def row_at_def ex_rows_def mhm_has_def mhm_get_def
          mhm_values_def)
  from facetRows_partition [OF valid, of "[''c'']"] eval
  show ?thesis
    by (auto simp: facet_key_def ex_rows_def)
qed

section \<open>Properties of the renderer\<close>

subsection \<open>Runs\<close>

lemma bnd_Inl: "bnd (tr, Inl e) k = (tr, Inl e)"
  by (simp add: bnd_def)

lemma bnd_Inr: "bnd (tr, Inr x) k = (tr @ fst (k x), snd (k x))"
  by (simp add: bnd_def split: prod.splits)

lemma bnd_ret: "bnd (ret x) k = k x"
  by (simp add: bnd_def ret_def split: prod.splits)

lemma bnd_throw: "bnd (throw e) k = throw e"
  by (simp add: bnd_def throw_def)

lemma bnd_call_Inr: "bnd (call ev (Inr x)) k = (ev # fst (k x), snd (k x))"
  by (simp add: call_def bnd_Inr)

lemma bnd_call_Inl: "bnd (call ev (Inl e)) k = ([ev], Inl e)"
  by (simp add: call_def bnd_Inl)

lemma bnd_succeeds:
  "bnd r k = (tr, Inr y) \<Longrightarrow> \<exists>tr1 x tr2. r = (tr1, Inr x) \<and> k x = (tr2, Inr y) \<and> tr = tr1 @ tr2"
  by (cases r; cases "snd r") (auto simp: bnd_def split: prod.splits)

lemma bnd_trace: "set (fst (bnd r k)) \<subseteq> set (fst r) \<union> (\<Union>x. set (fst (k x)))"
proof (cases r)
  case (Pair t res)
  show ?thesis
  proof (cases res)
    case (Inl e)
    with Pair show ?thesis by (simp add: bnd_Inl)
  next
    case (Inr x)
    with Pair show ?thesis by (auto simp: bnd_Inr)
  qed
qed

lemma mapM_succeeds:
  "mapM f xs = (tr, Inr ys) \<Longrightarrow> list_all2 (\<lambda>x y. \<exists>t. f x = (t, Inr y)) xs ys"
proof (induction xs arbitrary: tr ys)
  case Nil
  then show ?case by (simp add: ret_def)
next
  case (Cons x xs)
  from bnd_succeeds [OF Cons.prems [simplified]] obtain t1 y t2
    where fx: "f x = (t1, Inr y)"
      and rest: "bnd (mapM f xs) (\<lambda>ys. ret (y # ys)) = (t2, Inr ys)" by blast
  from bnd_succeeds [OF rest] obtain t3 zs
    where run: "mapM f xs = (t3, Inr zs)" and "ys = y # zs" by (auto simp: ret_def)
  with fx Cons.IH [OF run] show ?case by auto
qed

lemma mapM_trace: "set (fst (mapM f xs)) \<subseteq> (\<Union>x\<in>set xs. set (fst (f x)))"
proof (induction xs)
  case Nil
  show ?case by (simp add: ret_def)
next
  case (Cons x xs)
  have "set (fst (mapM f (x # xs))) \<subseteq> set (fst (f x)) \<union> set (fst (mapM f xs))"
  proof (cases "f x")
    case (Pair t r)
    show ?thesis
    proof (cases r)
      case (Inl e)
      with Pair show ?thesis by (simp add: bnd_Inl)
    next
      case (Inr y)
      obtain t' r' where m: "mapM f xs = (t', r')" by (cases "mapM f xs")
      show ?thesis using Pair Inr m
        by (cases r') (auto simp: bnd_Inl bnd_Inr ret_def)
    qed
  qed
  with Cons.IH show ?case by auto
qed

subsection \<open>One mark of a glyph\<close>

lemma renderGlyphMark_invisible:
  "\<not> visible (properties mark) \<Longrightarrow>
   renderGlyphMark manager ps pss cs offset state index (mark, markState) = ([], Inr None)"
  by (simp add: renderGlyphMark_def ret_def)

lemma renderGlyphMark_unresolved:
  "visible (properties mark) \<Longrightarrow> getMarkClass manager markState = Inl e \<Longrightarrow>
   renderGlyphMark manager ps pss cs offset state index (mark, markState) =
     ([Call_getMarkClass markState], Inl e)"
  by (simp add: renderGlyphMark_def bnd_call_Inl)

lemma renderGlyphMark_failed:
  "visible (properties mark) \<Longrightarrow> getMarkClass manager markState = Inr cls \<Longrightarrow>
   getGraphics cls cs offset (Some index) (emphasized state) = Inl e \<Longrightarrow>
   renderGlyphMark manager ps pss cs offset state index (mark, markState) =
     ([Call_getMarkClass markState, Call_getGraphics cs offset (Some index) (emphasized state)], Inl e)"
  by (simp add: renderGlyphMark_def bnd_call_Inr bnd_call_Inl)

lemma renderGlyphMark_declined:
  "visible (properties mark) \<Longrightarrow> getMarkClass manager markState = Inr cls \<Longrightarrow>
   getGraphics cls cs offset (Some index) (emphasized state) = Inr None \<Longrightarrow>
   renderGlyphMark manager ps pss cs offset state index (mark, markState) =
     ([Call_getMarkClass markState, Call_getGraphics cs offset (Some index) (emphasized state)], Inr None)"
  by (simp add: renderGlyphMark_def bnd_call_Inr ret_def)

lemma renderGlyphMark_drawn:
  "visible (properties mark) \<Longrightarrow> getMarkClass manager markState = Inr cls \<Longrightarrow>
   getGraphics cls cs offset (Some index) (emphasized state) = Inr (Some g) \<Longrightarrow>
   renderGlyphMark manager ps pss cs offset state index (mark, markState) =
     ([Call_getMarkClass markState, Call_getGraphics cs offset (Some index) (emphasized state)],
      Inr (Some (makeGroup [Some (set_selectable g (selectableFor ps pss index cls))])))"
  by (simp add: renderGlyphMark_def bnd_call_Inr ret_def selectableFor_def)

lemma renderGlyphMark_cases:
  obtains
    (invisible) "\<not> visible (properties mark)"
  | (unresolved) e where "visible (properties mark)" "getMarkClass manager markState = Inl e"
  | (failed) cls e where "visible (properties mark)" "getMarkClass manager markState = Inr cls"
      "getGraphics cls cs offset (Some index) (emphasized state) = Inl e"
  | (declined) cls where "visible (properties mark)" "getMarkClass manager markState = Inr cls"
      "getGraphics cls cs offset (Some index) (emphasized state) = Inr None"
  | (drawn) cls g where "visible (properties mark)" "getMarkClass manager markState = Inr cls"
      "getGraphics cls cs offset (Some index) (emphasized state) = Inr (Some g)"
proof (cases "visible (properties mark)")
  case False
  then show ?thesis by (rule invisible)
next
  case vis: True
  show ?thesis
  proof (cases "getMarkClass manager markState")
    case (Inl e)
    with vis show ?thesis by (rule unresolved)
  next
    case cls: (Inr cls)
    show ?thesis
    proof (cases "getGraphics cls cs offset (Some index) (emphasized state)")
      case (Inl e)
      with vis cls show ?thesis by (rule failed)
    next
      case (Inr r)
      then show ?thesis using vis cls declined drawn by (cases r) auto
    qed
  qed
qed

lemma renderGlyphMark_trace:
  "ev \<in> set (fst (renderGlyphMark manager ps pss cs offset state index (mark, markState))) \<Longrightarrow>
   ev = Call_getMarkClass markState \<or> ev = Call_getGraphics cs offset (Some index) (emphasized state)"
  by (rule renderGlyphMark_cases
       [where mark = mark and manager = manager and markState = markState and cs = cs
         and offset = offset and index = index and state = state])
     (auto simp: renderGlyphMark_invisible renderGlyphMark_unresolved renderGlyphMark_failed
        renderGlyphMark_declined renderGlyphMark_drawn)

lemma renderGlyphMark_slot:
  assumes "renderGlyphMark manager ps pss cs offset state index (mark, markState) = (tr, Inr (Some g))"
  shows "\<exists>cls prim. visible (properties mark) \<and> getMarkClass manager markState = Inr cls \<and>
           getGraphics cls cs offset (Some index) (emphasized state) = Inr (Some prim) \<and>
           g = makeGroup [Some (set_selectable prim (selectableFor ps pss index cls))]"
  using assms
  by (rule_tac renderGlyphMark_cases
       [where mark = mark and manager = manager and markState = markState and cs = cs
         and offset = offset and index = index and state = state])
     (auto simp: renderGlyphMark_invisible renderGlyphMark_unresolved renderGlyphMark_failed
        renderGlyphMark_declined renderGlyphMark_drawn)

lemma renderGlyphMarks_trace:
  assumes "ev \<in> set (fst (renderGlyphMarks manager ps pss cs offset glyph state index))"
  shows "(\<exists>markState. ev = Call_getMarkClass markState) \<or>
         ev = Call_getGraphics cs offset (Some index) (emphasized state)"
proof (cases glyph)
  case None
  with assms show ?thesis by (simp add: renderGlyphMarks_def throw_def)
next
  case (Some gl)
  with assms mapM_trace [of "renderGlyphMark manager ps pss cs offset state index"
      "zipArray (marks gl) (glyph_marks state)"]
  obtain pair where "ev \<in> set (fst (renderGlyphMark manager ps pss cs offset state index pair))"
    by (auto simp: renderGlyphMarks_def)
  then show ?thesis using renderGlyphMark_trace [of ev manager ps pss cs offset state index "fst pair" "snd pair"]
    by auto
qed

lemma selectable_set_selectable: "selectable (set_selectable g v) = Some v"
  by (cases g) simp_all

lemma yields_ret: "P x \<Longrightarrow> yields P (ret x)"
  by (simp add: yields_def ret_def)

lemma yields_throw: "yields P (throw e)"
  by (simp add: yields_def throw_def)

lemma yields_bnd: "(\<And>x. yields P (k x)) \<Longrightarrow> yields P (bnd r k)"
proof (cases r)
  case (Pair t res)
  assume k: "\<And>x. yields P (k x)"
  show ?thesis
  proof (cases res)
    case (Inl e)
    with Pair show ?thesis by (simp add: bnd_Inl yields_def)
  next
    case (Inr x)
    with Pair k [of x] show ?thesis by (simp add: bnd_Inr yields_def)
  qed
qed

lemma yieldsD: "yields P r \<Longrightarrow> r = (tr, Inr x) \<Longrightarrow> P x"
  by (simp add: yields_def)

lemma avoids_ret: "ev \<notin> set (fst (ret x))"
  by (simp add: ret_def)

lemma avoids_throw: "ev \<notin> set (fst (throw e))"
  by (simp add: throw_def)

lemma avoids_call: "ev \<noteq> ev' \<Longrightarrow> ev \<notin> set (fst (call ev' outcome))"
  by (simp add: call_def)

lemma avoids_bnd:
  "ev \<notin> set (fst r) \<Longrightarrow> (\<And>x. ev \<notin> set (fst (k x))) \<Longrightarrow> ev \<notin> set (fst (bnd r k))"
  using bnd_trace [of r k] by auto

lemma avoids_mapM: "(\<And>x. ev \<notin> set (fst (f x))) \<Longrightarrow> ev \<notin> set (fst (mapM f xs))"
  using mapM_trace [of f xs] by auto

subsection \<open>The completion callback is not called during assembly\<close>

lemma renderGlyph_avoids_afterRendered:
  "Call_afterRendered \<notin> set (fst (renderGlyph manager ps pss cs mark entry))"
proof (cases entry)
  case (Pair glyphIndex glyphState)
  show ?thesis
  proof (cases "glyph_marks glyphState")
    case Nil
    with Pair show ?thesis by (simp add: renderGlyph_def throw_def)
  next
    case (Cons first others)
    with Pair show ?thesis
      by (auto simp: renderGlyph_def Let_def dest: renderGlyphMarks_trace)
  qed
qed

lemma renderElement_avoids_afterRendered:
  "Call_afterRendered \<notin> set (fst (renderElement ext manager chart pair))"
proof (cases pair)
  case (Pair element elementState)
  show ?thesis
    unfolding Pair renderElement_def prod.case Let_def
    by (intro avoids_bnd avoids_call avoids_ret avoids_mapM renderGlyph_avoids_afterRendered
          if_split [where P = "\<lambda>r. Call_afterRendered \<notin> set (fst r)", THEN iffD2] conjI impI)
       simp_all
qed

lemma renderElements_avoids_afterRendered:
  "Call_afterRendered \<notin> set (fst (renderElements ext manager chart graphics pairs))"
proof (induction pairs arbitrary: graphics)
  case Nil
  show ?case by (simp add: ret_def)
next
  case (Cons pair pairs)
  obtain element elementState where pair: "pair = (element, elementState)" by (cases pair)
  show ?case
    unfolding pair
    by (simp add: Cons.IH avoids_bnd renderElement_avoids_afterRendered)
qed

lemma renderChart_avoids_afterRendered:
  "Call_afterRendered \<notin> set (fst (renderChart ext manager dataset chart chartState))"
  unfolding renderChart_def Let_def
  by (intro avoids_bnd avoids_call avoids_ret renderElements_avoids_afterRendered) simp_all

subsection \<open>The groups of the chart elements\<close>

lemma keyed_group: "set_key (push (makeGroup []) g) i = Group [g] None (Some i) None"
  by (simp add: makeGroup_def)

lemma renderElement_keyed:
  "yields (\<lambda>g. \<exists>c. g = Group c None (Some (object_id element)) None)
     (renderElement ext manager chart (element, elementState))"
  unfolding renderElement_def prod.case Let_def
  by (intro yields_bnd yields_ret
        if_split [where P = "yields (\<lambda>g. \<exists>c. g = Group c None (Some (object_id element)) None)", THEN iffD2]
        conjI impI)
     (simp_all add: makeGroup_def)

lemma renderElements_shape:
  "renderElements ext manager chart graphics pairs = (tr, Inr out) \<Longrightarrow>
   \<exists>children.
     length children = length (filter (\<lambda>p. visible (properties (fst p))) pairs) \<and>
     out = graphics @
       map2 (\<lambda>e c. Some (Group c None (Some (object_id e)) None))
         (map fst (filter (\<lambda>p. visible (properties (fst p))) pairs)) children"
proof (induction pairs arbitrary: graphics tr)
  case Nil
  then show ?case by (simp add: ret_def)
next
  case (Cons pair pairs)
  obtain element elementState where pair: "pair = (element, elementState)" by (cases pair)
  show ?case
  proof (cases "visible (properties element)")
    case False
    with Cons.prems pair have "renderElements ext manager chart graphics pairs = (tr, Inr out)" by simp
    from Cons.IH [OF this] show ?thesis using False pair by simp
  next
    case True
    with Cons.prems pair have
      "bnd (renderElement ext manager chart (element, elementState))
         (\<lambda>gElement. renderElements ext manager chart (graphics @ [Some gElement]) pairs) = (tr, Inr out)"
      by simp
    from bnd_succeeds [OF this] obtain t1 gElement t2
      where one: "renderElement ext manager chart (element, elementState) = (t1, Inr gElement)"
        and rest: "renderElements ext manager chart (graphics @ [Some gElement]) pairs = (t2, Inr out)"
      by blast
    from yieldsD [OF renderElement_keyed one] obtain c
      where g: "gElement = Group c None (Some (object_id element)) None" by blast
    from Cons.IH [OF rest] obtain children
      where len: "length children = length (filter (\<lambda>p. visible (properties (fst p))) pairs)"
        and out: "out = (graphics @ [Some gElement]) @
                    map2 (\<lambda>e c. Some (Group c None (Some (object_id e)) None))
                      (map fst (filter (\<lambda>p. visible (properties (fst p))) pairs)) children"
      by blast
    show ?thesis
      using len out g True pair by (intro exI [of _ "c # children"]) simp
  qed
qed

subsection \<open>Layers\<close>

lemma transpose_arr_regular:
  assumes ne: "glyphArrays \<noteq> []" and len: "\<forall>slots\<in>set glyphArrays. length slots = M"
  shows "transpose_arr glyphArrays = map (\<lambda>k. map (\<lambda>slots. slots ! k) glyphArrays) [0..<M]"
proof -
  from ne obtain first others where ga: "glyphArrays = first # others" by (cases glyphArrays) auto
  with len have M: "length first = M" by simp
  have "\<And>k. k < M \<Longrightarrow> map (\<lambda>row. nth_or_undefined row k) glyphArrays = map (\<lambda>slots. slots ! k) glyphArrays"
    using len by (intro map_cong) (auto simp: nth_or_undefined_def)
  then show ?thesis
    unfolding transpose_arr_def ga [symmetric] using ga M
    by (auto simp: ga intro!: map_cong split: list.splits)
qed

lemma renderElement_plotSegment_calls:
  assumes kind: "isType ext (classID plotSegment) ''plot-segment''"
      and cls: "getPlotSegmentClass manager plotSegmentState = Inr plotSegmentClass"
      and cs: "getCoordinateSystem plotSegmentClass = Inr coordinateSystem"
      and run: "mapM (renderGlyph manager plotSegment plotSegmentState coordinateSystem
                        (getById (chart_glyphs chart) (ps_glyph plotSegment)))
                  (enumerate 0 (glyphs plotSegmentState)) = (tr, Inr glyphArrays)"
  shows "\<exists>rest. fst (renderElement ext manager chart (plotSegment, plotSegmentState)) =
           [Call_getPlotSegmentClass plotSegmentState, Call_getCoordinateSystem] @ tr @
           Call_getPlotSegmentGraphics (glyphLayers ext coordinateSystem glyphArrays) # rest"
proof (cases "getPlotSegmentGraphics plotSegmentClass (glyphLayers ext coordinateSystem glyphArrays)")
  case (Inl e)
  with kind cls cs run show ?thesis
    by (simp add: renderElement_def Let_def bnd_call_Inr bnd_call_Inl bnd_Inr)
next
  case (Inr g)
  with kind cls cs run show ?thesis
    by (simp add: renderElement_def Let_def bnd_call_Inr bnd_Inr)
qed

subsection \<open>Evaluating the example\<close>

lemmas ex_simps =
  ex_plotSegment_def ex_mark_def ex_legend_def ex_glyph_def ex_chart_def ex_attributes_def
  ex_glyphState_def ex_plotSegmentState_def ex_elementState_def ex_chartState_def
  ex_markClass_def ex_manager_def ex_brokenManager_def ex_ext_def ex_hiddenChart_def
  ex_hiddenState_def

lemmas render_simps =
  ret_def throw_def call_def bnd_def renderGlyphMark_def renderGlyphMarks_def renderGlyph_def
  glyphLayers_def markStateOf_def renderElement_def renderChart_def render_def
  zipArray_def transpose_arr_def nth_or_undefined_def getById_def makeGroup_def
  rowIndices_at_def selectableFor_def Let_def enumerate_eq_zip

subsection \<open>The claims on the renderer\<close>

text \<open>
  C1, as it holds: for a plot segment with at least one glyph instance whose instances
  each produce a mark-slot sequence of the same length \<open>M\<close>, the glyph-layer group,
  which is the group the compositor hands to \<^verbatim>\<open>getPlotSegmentGraphics\<close> once
  the glyphs are rendered, has exactly \<open>M\<close> layer groups; there is one sequence per
  instance, in instance order, and layer \<open>k\<close> holds for every instance, in that order,
  the \<open>k\<close>-th slot of its sequence, \<^verbatim>\<open>null\<close> slots included.
\<close>

theorem glyphLayers_transposed:
  assumes kind: "isType ext (classID plotSegment) ''plot-segment''"
      and cls: "getPlotSegmentClass manager plotSegmentState = Inr plotSegmentClass"
      and cs: "getCoordinateSystem plotSegmentClass = Inr coordinateSystem"
      and run: "mapM (renderGlyph manager plotSegment plotSegmentState coordinateSystem
                        (getById (chart_glyphs chart) (ps_glyph plotSegment)))
                  (enumerate 0 (glyphs plotSegmentState)) = (tr, Inr glyphArrays)"
      and ne: "glyphs plotSegmentState \<noteq> []"
      and len: "\<forall>slots\<in>set glyphArrays. length slots = M"
  shows "\<exists>layers rest.
           fst (renderElement ext manager chart (plotSegment, plotSegmentState)) =
             [Call_getPlotSegmentClass plotSegmentState, Call_getCoordinateSystem] @ tr @
             Call_getPlotSegmentGraphics
               (Group layers (Some (getBaseTransform ext coordinateSystem)) None None) # rest \<and>
           length layers = M \<and>
           length glyphArrays = length (glyphs plotSegmentState) \<and>
           (\<forall>i<length (glyphs plotSegmentState).
              \<exists>t. renderGlyph manager plotSegment plotSegmentState coordinateSystem
                     (getById (chart_glyphs chart) (ps_glyph plotSegment))
                     (i, glyphs plotSegmentState ! i) = (t, Inr (glyphArrays ! i))) \<and>
           (\<forall>k<M. layers ! k = Some (makeGroup (map (\<lambda>slots. slots ! k) glyphArrays)))"
proof -
  let ?f = "renderGlyph manager plotSegment plotSegmentState coordinateSystem
              (getById (chart_glyphs chart) (ps_glyph plotSegment))"
  from mapM_succeeds [OF run]
  have all: "list_all2 (\<lambda>x y. \<exists>t. ?f x = (t, Inr y)) (enumerate 0 (glyphs plotSegmentState)) glyphArrays" .
  then have n: "length glyphArrays = length (glyphs plotSegmentState)"
    by (simp add: list_all2_lengthD [symmetric])
  with ne have ne': "glyphArrays \<noteq> []" by auto
  have each: "\<forall>i<length (glyphs plotSegmentState).
                \<exists>t. ?f (i, glyphs plotSegmentState ! i) = (t, Inr (glyphArrays ! i))"
    using all by (auto simp: list_all2_conv_all_nth nth_enumerate_eq)
  let ?layers = "map (\<lambda>k. Some (makeGroup (map (\<lambda>slots. slots ! k) glyphArrays))) [0..<M]"
  have layers: "glyphLayers ext coordinateSystem glyphArrays =
          Group ?layers (Some (getBaseTransform ext coordinateSystem)) None None"
    by (simp add: glyphLayers_def Let_def transpose_arr_regular [OF ne' len] makeGroup_def comp_def)
  from renderElement_plotSegment_calls [OF kind cls cs run] obtain rest
    where "fst (renderElement ext manager chart (plotSegment, plotSegmentState)) =
           [Call_getPlotSegmentClass plotSegmentState, Call_getCoordinateSystem] @ tr @
           Call_getPlotSegmentGraphics (Group ?layers (Some (getBaseTransform ext coordinateSystem)) None None) # rest"
    unfolding layers by blast
  with n each show ?thesis
    by (intro exI [of _ ?layers] exI [of _ rest]) simp
qed

text \<open>
  With no glyph instance every instance produces a sequence of any length one likes, and
  the template of the example has two marks; the glyph-layer group handed to the plot
  segment class has no layer.
\<close>

theorem glyphLayers_empty_counterexample:
  "glyphs (ex_elementState 0) = [] \<and> length (marks ex_glyph) = 2 \<and>
   getById (chart_glyphs ex_chart) (ps_glyph ex_plotSegment) = Some ex_glyph \<and>
   fst (renderElement ex_ext (ex_manager ex_chart ex_chartState) ex_chart (ex_plotSegment, ex_elementState 0)) =
     [Call_getPlotSegmentClass (ex_elementState 0), Call_getCoordinateSystem,
      Call_getPlotSegmentGraphics (Group [] (Some ''base'') None None),
      Call_getPlotSegmentBackgroundGraphics]"
  by (simp add: ex_simps render_simps)

text \<open>The two glyph instances of the example, two slots each.\<close>

theorem glyphLayers_transposed_witness:
  "\<exists>layers calls rest.
     fst (renderElement ex_ext (ex_manager ex_chart ex_chartState) ex_chart (ex_plotSegment, ex_plotSegmentState)) =
       calls @ Call_getPlotSegmentGraphics (Group layers (Some ''base'') None None) # rest \<and>
     length layers = 2 \<and>
     layers ! 0 =
       Some (makeGroup
         [Some (makeGroup [Some (Primitive ''rect'' (Some (selectableFor ex_plotSegment ex_plotSegmentState 0
            (ex_markClass \<lparr> mark_attributes = ex_attributes 5 5 \<rparr>))))]),
          Some (makeGroup [Some (Primitive ''rect'' (Some (selectableFor ex_plotSegment ex_plotSegmentState 1
            (ex_markClass \<lparr> mark_attributes = ex_attributes 5 5 \<rparr>))))])]) \<and>
     layers ! 1 = Some (makeGroup [None, None])"
proof -
  let ?m = "ex_manager ex_chart ex_chartState"
  let ?cls = "\<lparr> getCoordinateSystem = Inr ''polar'',
                 getPlotSegmentGraphics = (\<lambda>g. Inr (Some g)),
                 getPlotSegmentBackgroundGraphics = Inr None \<rparr> :: (string, string, string) PlotSegmentClass"
  let ?arrays = "[[Some (makeGroup [Some (Primitive ''rect'' (Some (selectableFor ex_plotSegment ex_plotSegmentState 0
            (ex_markClass \<lparr> mark_attributes = ex_attributes 5 5 \<rparr>))))]), None],
        [Some (makeGroup [Some (Primitive ''rect'' (Some (selectableFor ex_plotSegment ex_plotSegmentState 1
            (ex_markClass \<lparr> mark_attributes = ex_attributes 5 5 \<rparr>))))]), None]]"
  let ?run = "mapM (renderGlyph ?m ex_plotSegment ex_plotSegmentState ''polar''
                      (getById (chart_glyphs ex_chart) (ps_glyph ex_plotSegment)))
                (enumerate 0 (glyphs ex_plotSegmentState))"
  have kind: "isType ex_ext (classID ex_plotSegment) ''plot-segment''"
    by (simp add: ex_ext_def ex_plotSegment_def)
  have cls: "getPlotSegmentClass ?m ex_plotSegmentState = Inr ?cls"
    by (simp add: ex_manager_def)
  have cs: "getCoordinateSystem ?cls = Inr ''polar''" by simp
  have "snd ?run = Inr ?arrays"
    by (simp add: ex_simps render_simps)
  then have run: "?run = (fst ?run, Inr ?arrays)" by (simp add: prod_eq_iff)
  have ne: "glyphs ex_plotSegmentState \<noteq> []" by (simp add: ex_plotSegmentState_def)
  have len: "\<forall>slots\<in>set ?arrays. length slots = 2" by simp
  have base: "getBaseTransform ex_ext ''polar'' = ''base''" by (simp add: ex_ext_def)
  from glyphLayers_transposed [OF kind cls cs run ne len] obtain layers rest
    where tr: "fst (renderElement ex_ext ?m ex_chart (ex_plotSegment, ex_plotSegmentState)) =
             [Call_getPlotSegmentClass ex_plotSegmentState, Call_getCoordinateSystem] @ fst ?run @
             Call_getPlotSegmentGraphics (Group layers (Some ''base'') None None) # rest"
      and n: "length layers = 2"
      and l: "\<forall>k<2. layers ! k = Some (makeGroup (map (\<lambda>slots. slots ! k) ?arrays))"
    unfolding base by blast
  from l have "layers ! 0 = Some (makeGroup (map (\<lambda>slots. slots ! 0) ?arrays))"
    and "layers ! 1 = Some (makeGroup (map (\<lambda>slots. slots ! 1) ?arrays))"
    by simp_all
  with tr n show ?thesis
    by (intro exI [of _ layers]
          exI [of _ "[Call_getPlotSegmentClass ex_plotSegmentState, Call_getCoordinateSystem] @ fst ?run"]
          exI [of _ rest]) simp
qed

text \<open>
  C2: when the chart compositor returns, for a state that is aligned with the chart (one
  element state per chart element), the children of the root group are: the background
  if the chart class returned one and nothing if it returned none, then the empty link
  group, then one group keyed by the element's id for every visible chart element, in the
  order of the specification.  An invisible element has no child, not even an empty
  place.
\<close>

theorem renderChart_root:
  assumes run: "renderChart ext manager dataset chart chartState = (tr, Inr root)"
      and aligned: "length (chart_elements chart) = length (state_elements chartState)"
  shows "\<exists>chartClass bg children.
           getChartClass manager chartState = Inr chartClass \<and>
           getBackgroundGraphics chartClass = Inr bg \<and>
           length children = length (filter (\<lambda>e. visible (properties e)) (chart_elements chart)) \<and>
           root = makeGroup
             ((case bg of None \<Rightarrow> [] | Some b \<Rightarrow> [Some b]) @ [Some (makeGroup [])] @
              map2 (\<lambda>e c. Some (Group c None (Some (object_id e)) None))
                (filter (\<lambda>e. visible (properties e)) (chart_elements chart)) children)"
proof -
  let ?pairs = "zipArray (chart_elements chart) (state_elements chartState)"
  let ?vis = "\<lambda>e. visible (properties e)"
  let ?start = "\<lambda>bg. (case bg of Some b \<Rightarrow> [Some b] | None \<Rightarrow> []) @ [Some (makeGroup [])]"
  obtain chartClass where cc: "getChartClass manager chartState = Inr chartClass"
    using run by (cases "getChartClass manager chartState") (auto simp: renderChart_def bnd_call_Inl)
  obtain bg where bgc: "getBackgroundGraphics chartClass = Inr bg"
    using run cc
    by (cases "getBackgroundGraphics chartClass") (auto simp: renderChart_def bnd_call_Inl bnd_call_Inr)
  define R where "R = bnd (renderElements ext manager chart (?start bg) ?pairs)
                        (\<lambda>graphics. ret (makeGroup graphics))"
  have "snd R = Inr root"
    using run cc bgc by (simp add: renderChart_def bnd_call_Inr Let_def R_def)
  then obtain t where "R = (t, Inr root)" by (cases R) auto
  from bnd_succeeds [OF this [unfolded R_def]] obtain t5 out
    where els: "renderElements ext manager chart (?start bg) ?pairs = (t5, Inr out)"
      and root: "root = makeGroup out"
    by (auto simp: ret_def)
  from renderElements_shape [OF els] obtain children
    where len: "length children = length (filter (\<lambda>p. ?vis (fst p)) ?pairs)"
      and out: "out = ((case bg of Some b \<Rightarrow> [Some b] | None \<Rightarrow> []) @ [Some (makeGroup [])]) @
                  map2 (\<lambda>e c. Some (Group c None (Some (object_id e)) None))
                    (map fst (filter (\<lambda>p. ?vis (fst p)) ?pairs)) children"
    by blast
  have "map fst (filter (\<lambda>p. ?vis (fst p)) ?pairs) = filter ?vis (map fst ?pairs)"
    by (simp add: filter_map comp_def)
  also have "map fst ?pairs = chart_elements chart"
    using aligned by (simp add: zipArray_def)
  finally have vis: "map fst (filter (\<lambda>p. ?vis (fst p)) ?pairs) = filter ?vis (chart_elements chart)" .
  have len': "length children = length (filter ?vis (chart_elements chart))"
    using len vis by (metis length_map)
  from cc bgc len' root out vis
  show ?thesis
    by (intro exI [of _ chartClass] exI [of _ bg] exI [of _ children]) (auto split: option.splits)
qed

text \<open>The example chart: a background, the link group, and two of the three elements.\<close>

theorem renderChart_root_witness:
  "\<exists>children.
     length children = 2 \<and>
     snd (renderChart ex_ext (ex_manager ex_chart ex_chartState) () ex_chart ex_chartState) =
       Inr (makeGroup
         ([Some (Primitive ''background'' None), Some (makeGroup [])] @
          map2 (\<lambda>e c. Some (Group c None (Some (object_id e)) None))
            [ex_plotSegment, ex_mark ''title'' True] children))"
proof -
  let ?run = "renderChart ex_ext (ex_manager ex_chart ex_chartState) () ex_chart ex_chartState"
  obtain root where root: "snd ?run = Inr root"
    by (simp add: ex_simps render_simps)
  then have run: "?run = (fst ?run, Inr root)" by (simp add: prod_eq_iff)
  have aligned: "length (chart_elements ex_chart) = length (state_elements ex_chartState)"
    by (simp add: ex_simps)
  from renderChart_root [OF run aligned] obtain chartClass bg children
    where cc: "getChartClass (ex_manager ex_chart ex_chartState) ex_chartState = Inr chartClass"
      and bg: "getBackgroundGraphics chartClass = Inr bg"
      and len: "length children = length (filter (\<lambda>e. visible (properties e)) (chart_elements ex_chart))"
      and shape: "root = makeGroup
             ((case bg of None \<Rightarrow> [] | Some b \<Rightarrow> [Some b]) @ [Some (makeGroup [])] @
              map2 (\<lambda>e c. Some (Group c None (Some (object_id e)) None))
                (filter (\<lambda>e. visible (properties e)) (chart_elements ex_chart)) children)"
    by blast
  have vis: "filter (\<lambda>e. visible (properties e)) (chart_elements ex_chart)
               = [ex_plotSegment, ex_mark ''title'' True]"
    by (simp add: ex_chart_def ex_plotSegment_def ex_mark_def ex_legend_def)
  have "bg = Some (Primitive ''background'' None)"
    using cc bg by (auto simp: ex_manager_def)
  with len shape root show ?thesis
    unfolding vis by (intro exI [of _ children]) simp
qed

text \<open>
  C4, as it holds: every slot of the glyph mark compositor that is not \<^verbatim>\<open>null\<close>
  stands at the position of a visible mark and is a group with one child, the primitive
  drawn by the mark class that the manager resolved for the mark state at that position;
  that child carries as selectable metadata exactly: the plot segment the compositor was
  called for, the index of the glyph, the row indices of the plot segment state at that
  index, and the three flags of the properties of the object of that mark class.
\<close>

theorem renderGlyphMarks_selectable:
  assumes run: "renderGlyphMarks manager plotSegment plotSegmentState coordinateSystem offset (Some glyph) state index
                  = (tr, Inr slots)"
      and i: "i < length slots"
      and slot: "slots ! i = Some g"
  shows "i < length (marks glyph) \<and> i < length (glyph_marks state) \<and>
         visible (properties (marks glyph ! i)) \<and>
         (\<exists>cls prim child.
            getMarkClass manager (glyph_marks state ! i) = Inr cls \<and>
            getGraphics cls coordinateSystem offset (Some index) (emphasized state) = Inr (Some prim) \<and>
            g = makeGroup [Some child] \<and>
            child = set_selectable prim (selectableFor plotSegment plotSegmentState index cls) \<and>
            selectable child =
              Some \<lparr> sel_plotSegment = plotSegment,
                     sel_glyphIndex = index,
                     sel_rowIndices = rowIndices_at (dataRowIndices plotSegmentState) index,
                     sel_enableTooltips = enableTooltips (properties (object cls)),
                     sel_enableContextMenu = enableContextMenu (properties (object cls)),
                     sel_enableSelection = enableSelection (properties (object cls)) \<rparr>)"
proof -
  let ?f = "renderGlyphMark manager plotSegment plotSegmentState coordinateSystem offset state index"
  let ?ps = "zipArray (marks glyph) (glyph_marks state)"
  from run have "mapM ?f ?ps = (tr, Inr slots)"
    by (simp add: renderGlyphMarks_def)
  from mapM_succeeds [OF this]
  have all: "list_all2 (\<lambda>x y. \<exists>t. ?f x = (t, Inr y)) ?ps slots" .
  then have len: "length ?ps = length slots" by (rule list_all2_lengthD)
  with i have i': "i < length ?ps" by simp
  then have bounds: "i < length (marks glyph)" "i < length (glyph_marks state)"
    by (simp_all add: zipArray_def)
  from i' have pair: "?ps ! i = (marks glyph ! i, glyph_marks state ! i)"
    by (simp add: zipArray_def)
  from all i' slot obtain t where one: "?f (?ps ! i) = (t, Inr (Some g))"
    by (auto simp: list_all2_conv_all_nth)
  from renderGlyphMark_slot [OF one [unfolded pair]] obtain cls prim
    where "visible (properties (marks glyph ! i))"
      and "getMarkClass manager (glyph_marks state ! i) = Inr cls"
      and "getGraphics cls coordinateSystem offset (Some index) (emphasized state) = Inr (Some prim)"
      and "g = makeGroup [Some (set_selectable prim (selectableFor plotSegment plotSegmentState index cls))]"
    by blast
  with bounds show ?thesis
    by (auto simp: selectable_set_selectable selectableFor_def)
qed

text \<open>
  The flags are not those of the plot segment: in the example the plot segment has
  tooltips and selection off and the context menu on, the metadata has them the other
  way round, as the object of the mark class has.
\<close>

theorem renderGlyphMarks_flags_counterexample:
  "snd (renderGlyphMarks (ex_manager ex_chart ex_chartState) ex_plotSegment ex_plotSegmentState ''polar''
          \<lparr> point_x = 7, point_y = 4 \<rparr> (Some ex_glyph) (ex_glyphState 12 9) 0) =
     Inr [Some (makeGroup [Some (Primitive ''rect''
            (Some \<lparr> sel_plotSegment = ex_plotSegment, sel_glyphIndex = 0, sel_rowIndices = Some [0, 2],
                    sel_enableTooltips = True, sel_enableContextMenu = False,
                    sel_enableSelection = True \<rparr>))]), None] \<and>
   enableTooltips (properties ex_plotSegment) = False \<and>
   enableContextMenu (properties ex_plotSegment) = True \<and>
   enableSelection (properties ex_plotSegment) = False"
  by (simp add: ex_simps render_simps)

text \<open>
  The first glyph instance of the example: the slot at position 0 carries the flags of the
  object of the class resolved for the mark state at position 0.
\<close>

theorem renderGlyphMarks_selectable_witness:
  "snd (renderGlyphMarks (ex_manager ex_chart ex_chartState) ex_plotSegment ex_plotSegmentState ''polar''
          \<lparr> point_x = 7, point_y = 4 \<rparr> (Some ex_glyph) (ex_glyphState 12 9) 0) =
     Inr [Some (makeGroup [Some (Primitive ''rect''
            (Some \<lparr> sel_plotSegment = ex_plotSegment, sel_glyphIndex = 0, sel_rowIndices = Some [0, 2],
                    sel_enableTooltips = True, sel_enableContextMenu = False,
                    sel_enableSelection = True \<rparr>))]), None] \<and>
   getMarkClass (ex_manager ex_chart ex_chartState) (glyph_marks (ex_glyphState 12 9) ! 0) =
     Inr (ex_markClass \<lparr> mark_attributes = ex_attributes 5 5 \<rparr>) \<and>
   \<lparr> sel_plotSegment = ex_plotSegment, sel_glyphIndex = 0, sel_rowIndices = Some [0, 2],
     sel_enableTooltips = True, sel_enableContextMenu = False, sel_enableSelection = True \<rparr> =
   \<lparr> sel_plotSegment = ex_plotSegment, sel_glyphIndex = 0,
     sel_rowIndices = rowIndices_at (dataRowIndices ex_plotSegmentState) 0,
     sel_enableTooltips =
       enableTooltips (properties (object (ex_markClass \<lparr> mark_attributes = ex_attributes 5 5 \<rparr>))),
     sel_enableContextMenu =
       enableContextMenu (properties (object (ex_markClass \<lparr> mark_attributes = ex_attributes 5 5 \<rparr>))),
     sel_enableSelection =
       enableSelection (properties (object (ex_markClass \<lparr> mark_attributes = ex_attributes 5 5 \<rparr>))) \<rparr>"
proof -
  let ?m = "ex_manager ex_chart ex_chartState"
  let ?sel = "\<lparr> sel_plotSegment = ex_plotSegment, sel_glyphIndex = 0, sel_rowIndices = Some [0, 2],
                 sel_enableTooltips = True, sel_enableContextMenu = False, sel_enableSelection = True \<rparr>"
  let ?g = "makeGroup [Some (Primitive ''rect'' (Some ?sel))] :: (string, string) Element"
  let ?run = "renderGlyphMarks ?m ex_plotSegment ex_plotSegmentState ''polar''
          \<lparr> point_x = 7, point_y = 4 \<rparr> (Some ex_glyph) (ex_glyphState 12 9) 0"
  have out: "snd ?run = Inr [Some ?g, None]"
    by (simp add: ex_simps render_simps)
  then have run: "?run = (fst ?run, Inr [Some ?g, None])" by (simp add: prod_eq_iff)
  have i: "0 < length [Some ?g, None]" by simp
  have slot: "[Some ?g, None] ! 0 = Some ?g" by simp
  have res: "getMarkClass ?m (glyph_marks (ex_glyphState 12 9) ! 0) =
               Inr (ex_markClass \<lparr> mark_attributes = ex_attributes 5 5 \<rparr>)"
    by (simp add: ex_manager_def ex_glyphState_def)
  from renderGlyphMarks_selectable [OF run i slot] obtain cls prim child
    where cls: "getMarkClass ?m (glyph_marks (ex_glyphState 12 9) ! 0) = Inr cls"
      and g: "?g = makeGroup [Some child]"
      and sel: "selectable child =
              Some \<lparr> sel_plotSegment = ex_plotSegment,
                     sel_glyphIndex = 0,
                     sel_rowIndices = rowIndices_at (dataRowIndices ex_plotSegmentState) 0,
                     sel_enableTooltips = enableTooltips (properties (object cls)),
                     sel_enableContextMenu = enableContextMenu (properties (object cls)),
                     sel_enableSelection = enableSelection (properties (object cls)) \<rparr>"
    by blast
  from cls res have c: "cls = ex_markClass \<lparr> mark_attributes = ex_attributes 5 5 \<rparr>" by simp
  from g have "child = Primitive ''rect'' (Some ?sel)" by (simp add: makeGroup_def)
  with sel have "?sel = \<lparr> sel_plotSegment = ex_plotSegment,
                     sel_glyphIndex = 0,
                     sel_rowIndices = rowIndices_at (dataRowIndices ex_plotSegmentState) 0,
                     sel_enableTooltips = enableTooltips (properties (object cls)),
                     sel_enableContextMenu = enableContextMenu (properties (object cls)),
                     sel_enableSelection = enableSelection (properties (object cls)) \<rparr>"
    by simp
  with out res show ?thesis unfolding c by simp
qed

text \<open>
  C5: for a pair of a mark and its state, if the mark is invisible the slot is
  \<^verbatim>\<open>null\<close> and no call is made, whatever the manager and the mark class would
  do; if the mark is visible and its class returns no primitive, the slot is
  \<^verbatim>\<open>null\<close> as well.  In the sequence the compositor returns, the slot of an
  invisible mark stands at the position of the mark.
\<close>

theorem renderGlyphMarks_invisible_slot:
  "(\<not> visible (properties mark) \<longrightarrow>
      renderGlyphMark manager plotSegment plotSegmentState coordinateSystem offset state index (mark, markState)
        = ([], Inr None)) \<and>
   (visible (properties mark) \<and> getMarkClass manager markState = Inr cls \<and>
    getGraphics cls coordinateSystem offset (Some index) (emphasized state) = Inr None \<longrightarrow>
      renderGlyphMark manager plotSegment plotSegmentState coordinateSystem offset state index (mark, markState)
        = ([Call_getMarkClass markState,
            Call_getGraphics coordinateSystem offset (Some index) (emphasized state)], Inr None)) \<and>
   (renderGlyphMarks manager plotSegment plotSegmentState coordinateSystem offset (Some glyph) state index
        = (tr, Inr slots) \<longrightarrow>
      length slots = length (zipArray (marks glyph) (glyph_marks state)) \<and>
      (\<forall>i<length slots. \<not> visible (properties (marks glyph ! i)) \<longrightarrow> slots ! i = None))"
proof (intro conjI impI)
  assume "\<not> visible (properties mark)"
  then show "renderGlyphMark manager plotSegment plotSegmentState coordinateSystem offset state index (mark, markState)
        = ([], Inr None)"
    by (rule renderGlyphMark_invisible)
next
  assume "visible (properties mark) \<and> getMarkClass manager markState = Inr cls \<and>
    getGraphics cls coordinateSystem offset (Some index) (emphasized state) = Inr None"
  then show "renderGlyphMark manager plotSegment plotSegmentState coordinateSystem offset state index (mark, markState)
        = ([Call_getMarkClass markState,
            Call_getGraphics coordinateSystem offset (Some index) (emphasized state)], Inr None)"
    by (simp add: renderGlyphMark_declined)
next
  let ?f = "renderGlyphMark manager plotSegment plotSegmentState coordinateSystem offset state index"
  let ?ps = "zipArray (marks glyph) (glyph_marks state)"
  assume "renderGlyphMarks manager plotSegment plotSegmentState coordinateSystem offset (Some glyph) state index
        = (tr, Inr slots)"
  then have "mapM ?f ?ps = (tr, Inr slots)" by (simp add: renderGlyphMarks_def)
  from mapM_succeeds [OF this]
  have all: "list_all2 (\<lambda>x y. \<exists>t. ?f x = (t, Inr y)) ?ps slots" .
  then show len: "length slots = length ?ps" by (simp add: list_all2_lengthD)
  show "\<forall>i<length slots. \<not> visible (properties (marks glyph ! i)) \<longrightarrow> slots ! i = None"
  proof (intro allI impI)
    fix i assume i: "i < length slots" and inv: "\<not> visible (properties (marks glyph ! i))"
    from i len have i': "i < length ?ps" by simp
    then have pair: "?ps ! i = (marks glyph ! i, glyph_marks state ! i)"
      by (simp add: zipArray_def)
    from all i' obtain t where "?f (?ps ! i) = (t, Inr (slots ! i))"
      by (auto simp: list_all2_conv_all_nth)
    with pair inv show "slots ! i = None"
      by (simp add: renderGlyphMark_invisible)
  qed
qed

text \<open>
  The invisible mark of the example with a state for which the mark class would draw, and
  the visible mark with a state for which it declines.
\<close>

theorem renderGlyphMarks_invisible_slot_witness:
  "\<not> visible (properties (ex_mark ''m2'' False)) \<and>
   getGraphics (ex_markClass \<lparr> mark_attributes = ex_attributes 5 5 \<rparr>) ''polar''
     \<lparr> point_x = 7, point_y = 4 \<rparr> (Some 0) None = Inr (Some (Primitive ''rect'' None)) \<and>
   renderGlyphMark (ex_manager ex_chart ex_chartState) ex_plotSegment ex_plotSegmentState ''polar''
     \<lparr> point_x = 7, point_y = 4 \<rparr> (ex_glyphState 12 9) 0
     (ex_mark ''m2'' False, \<lparr> mark_attributes = ex_attributes 5 5 \<rparr>) = ([], Inr None) \<and>
   renderGlyphMark (ex_manager ex_chart ex_chartState) ex_plotSegment ex_plotSegmentState ''polar''
     \<lparr> point_x = 7, point_y = 4 \<rparr> (ex_glyphState 12 9) 0
     (ex_mark ''m1'' True, \<lparr> mark_attributes = ex_attributes 6 6 \<rparr>) =
       ([Call_getMarkClass \<lparr> mark_attributes = ex_attributes 6 6 \<rparr>,
         Call_getGraphics ''polar'' \<lparr> point_x = 7, point_y = 4 \<rparr> (Some 0) None], Inr None) \<and>
   (\<exists>slots. snd (renderGlyphMarks (ex_manager ex_chart ex_chartState) ex_plotSegment ex_plotSegmentState ''polar''
          \<lparr> point_x = 7, point_y = 4 \<rparr> (Some ex_glyph) (ex_glyphState 12 9) 0) = Inr slots \<and>
      length slots = 2 \<and> slots ! 1 = None)"
proof -
  let ?m = "ex_manager ex_chart ex_chartState"
  let ?off = "\<lparr> point_x = 7, point_y = 4 \<rparr> :: int Point"
  let ?run = "renderGlyphMarks ?m ex_plotSegment ex_plotSegmentState ''polar'' ?off (Some ex_glyph)
                (ex_glyphState 12 9) 0"
  have inv: "\<not> visible (properties (ex_mark ''m2'' False))" by (simp add: ex_simps)
  have vis: "visible (properties (ex_mark ''m1'' True)) \<and>
             getMarkClass ?m \<lparr> mark_attributes = ex_attributes 6 6 \<rparr>
               = Inr (ex_markClass \<lparr> mark_attributes = ex_attributes 6 6 \<rparr>) \<and>
             getGraphics (ex_markClass \<lparr> mark_attributes = ex_attributes 6 6 \<rparr>) ''polar'' ?off (Some 0)
               (emphasized (ex_glyphState 12 9)) = Inr None"
    by (simp add: ex_simps)
  obtain slots where slots: "snd ?run = Inr slots" by (simp add: ex_simps render_simps)
  then have run: "?run = (fst ?run, Inr slots)" by (simp add: prod_eq_iff)
  have second: "\<not> visible (properties (marks ex_glyph ! 1))" by (simp add: ex_simps)
  have len: "length (zipArray (marks ex_glyph) (glyph_marks (ex_glyphState 12 9))) = 2"
    by (simp add: ex_simps zipArray_def)
  have draws: "getGraphics (ex_markClass \<lparr> mark_attributes = ex_attributes 5 5 \<rparr>) ''polar''
     ?off (Some 0) None = Inr (Some (Primitive ''rect'' None))"
    by (simp add: ex_simps)
  note a = renderGlyphMarks_invisible_slot
    [where mark = "ex_mark ''m2'' False" and manager = ?m and plotSegment = ex_plotSegment
       and plotSegmentState = ex_plotSegmentState and coordinateSystem = "''polar''" and offset = ?off
       and state = "ex_glyphState 12 9" and index = 0
       and markState = "\<lparr> mark_attributes = ex_attributes 5 5 \<rparr>"
       and glyph = ex_glyph and tr = "fst ?run" and slots = slots]
  note b = renderGlyphMarks_invisible_slot
    [where mark = "ex_mark ''m1'' True" and manager = ?m and plotSegment = ex_plotSegment
       and plotSegmentState = ex_plotSegmentState and coordinateSystem = "''polar''" and offset = ?off
       and state = "ex_glyphState 12 9" and index = 0
       and markState = "\<lparr> mark_attributes = ex_attributes 6 6 \<rparr>"
       and cls = "ex_markClass \<lparr> mark_attributes = ex_attributes 6 6 \<rparr>"]
  from a inv run second len have
    "renderGlyphMark ?m ex_plotSegment ex_plotSegmentState ''polar'' ?off (ex_glyphState 12 9) 0
       (ex_mark ''m2'' False, \<lparr> mark_attributes = ex_attributes 5 5 \<rparr>) = ([], Inr None)"
    and "length slots = 2" and "slots ! 1 = None"
    by auto
  moreover from b vis have
    "renderGlyphMark ?m ex_plotSegment ex_plotSegmentState ''polar'' ?off (ex_glyphState 12 9) 0
       (ex_mark ''m1'' True, \<lparr> mark_attributes = ex_attributes 6 6 \<rparr>) =
       ([Call_getMarkClass \<lparr> mark_attributes = ex_attributes 6 6 \<rparr>,
         Call_getGraphics ''polar'' ?off (Some 0) None], Inr None)"
    by (simp add: ex_glyphState_def)
  ultimately show ?thesis using inv draws slots by auto
qed



text \<open>
  C7: when the chart compositor returns a tree and a callback is supplied, the calls of
  \<open>render\<close> are those of the compositor followed by one call of the callback, which
  the compositor itself never makes, and the tree returned is the compositor's; when the
  compositor fails, \<open>render\<close> fails with it and the callback is not called; with no
  callback the run is the compositor's.
\<close>

theorem render_afterRendered:
  "(renderChart ext manager (mgr_dataset manager) (mgr_chart manager) (mgr_chartState manager) = (calls, Inr tree) \<and>
    renderEvents = Some events \<and> afterRendered events = Some outcome \<longrightarrow>
      render ext manager renderEvents =
        (calls @ [Call_afterRendered], case outcome of Inl e \<Rightarrow> Inl e | Inr u \<Rightarrow> Inr tree) \<and>
      Call_afterRendered \<notin> set calls) \<and>
   (renderChart ext manager (mgr_dataset manager) (mgr_chart manager) (mgr_chartState manager) = (calls, Inl e) \<longrightarrow>
      render ext manager renderEvents = (calls, Inl e) \<and> Call_afterRendered \<notin> set calls) \<and>
   (renderChart ext manager (mgr_dataset manager) (mgr_chart manager) (mgr_chartState manager) = (calls, Inr tree) \<and>
    (renderEvents = None \<or> renderEvents = Some \<lparr> afterRendered = None \<rparr>) \<longrightarrow>
      render ext manager renderEvents = (calls, Inr tree))"
proof -
  let ?chart = "renderChart ext manager (mgr_dataset manager) (mgr_chart manager) (mgr_chartState manager)"
  have clean: "?chart = (calls, r) \<Longrightarrow> Call_afterRendered \<notin> set calls" for r
    using renderChart_avoids_afterRendered
      [of ext manager "mgr_dataset manager" "mgr_chart manager" "mgr_chartState manager"]
    by simp
  show ?thesis
    using clean
    by (auto simp: render_def bnd_Inl bnd_Inr ret_def call_def split: sum.splits)
qed

text \<open>
  A chart with no visible element: the callback is called once, after the two calls of
  the assembly.  With a chart class that cannot be resolved it is not called.
\<close>

theorem render_afterRendered_witness:
  "render ex_ext (ex_manager ex_hiddenChart ex_hiddenState) (Some \<lparr> afterRendered = Some (Inr ()) \<rparr>) =
     ([Call_getChartClass ex_hiddenState, Call_getBackgroundGraphics, Call_afterRendered],
      Inr (makeGroup [Some (Primitive ''background'' None), Some (makeGroup [])])) \<and>
   render ex_ext (ex_brokenManager ex_hiddenChart ex_hiddenState) (Some \<lparr> afterRendered = Some (Inr ()) \<rparr>) =
     ([Call_getChartClass ex_hiddenState], Inl (Thrown ''no chart class'')) \<and>
   render ex_ext (ex_manager ex_hiddenChart ex_hiddenState) None =
     ([Call_getChartClass ex_hiddenState, Call_getBackgroundGraphics],
      Inr (makeGroup [Some (Primitive ''background'' None), Some (makeGroup [])]))"
proof -
  let ?ok = "ex_manager ex_hiddenChart ex_hiddenState"
  let ?bad = "ex_brokenManager ex_hiddenChart ex_hiddenState"
  let ?tree = "makeGroup [Some (Primitive ''background'' None), Some (makeGroup [])] :: (string, string) Element"
  have ok: "renderChart ex_ext ?ok (mgr_dataset ?ok) (mgr_chart ?ok) (mgr_chartState ?ok) =
              ([Call_getChartClass ex_hiddenState, Call_getBackgroundGraphics], Inr ?tree)"
    by (simp add: ex_simps render_simps)
  have bad: "renderChart ex_ext ?bad (mgr_dataset ?bad) (mgr_chart ?bad) (mgr_chartState ?bad) =
               ([Call_getChartClass ex_hiddenState], Inl (Thrown ''no chart class''))"
    by (simp add: ex_simps render_simps)
  note a = render_afterRendered
    [where ext = ex_ext and manager = ?ok and renderEvents = "Some \<lparr> afterRendered = Some (Inr ()) \<rparr>"
       and events = "\<lparr> afterRendered = Some (Inr ()) \<rparr>" and outcome = "Inr ()"
       and calls = "[Call_getChartClass ex_hiddenState, Call_getBackgroundGraphics]" and tree = ?tree]
  note b = render_afterRendered
    [where ext = ex_ext and manager = ?bad and renderEvents = "Some \<lparr> afterRendered = Some (Inr ()) \<rparr>"
       and calls = "[Call_getChartClass ex_hiddenState]" and e = "Thrown ''no chart class''"]
  note c = render_afterRendered
    [where ext = ex_ext and manager = ?ok and renderEvents = None
       and calls = "[Call_getChartClass ex_hiddenState, Call_getBackgroundGraphics]" and tree = ?tree]
  from a ok have "render ex_ext ?ok (Some \<lparr> afterRendered = Some (Inr ()) \<rparr>) =
     ([Call_getChartClass ex_hiddenState, Call_getBackgroundGraphics, Call_afterRendered], Inr ?tree)"
    by simp
  moreover from b bad have "render ex_ext ?bad (Some \<lparr> afterRendered = Some (Inr ()) \<rparr>) =
     ([Call_getChartClass ex_hiddenState], Inl (Thrown ''no chart class''))"
    by simp
  moreover from c ok have "render ex_ext ?ok None =
     ([Call_getChartClass ex_hiddenState, Call_getBackgroundGraphics], Inr ?tree)"
    by simp
  ultimately show ?thesis by simp
qed

text \<open>
  C10: for a chart element of mark kind whose class is resolved and whose
  \<^verbatim>\<open>getGraphics\<close> returns \<open>g\<close>, a primitive or \<^verbatim>\<open>null\<close>, the element's
  group is keyed by the element's id and has the one child \<open>g\<close>, as returned; the
  capability is called with the Cartesian coordinate system at the origin, a zero offset
  and no glyph index.  For a visible element the loop pushes that group.
\<close>

theorem renderElement_single_mark:
  assumes kind: "\<not> isType ext (classID element) ''plot-segment''" "isType ext (classID element) ''mark''"
      and cls: "getMarkClass manager (markStateOf elementState) = Inr elementClass"
      and drawn: "getGraphics elementClass (CartesianCoordinates ext \<lparr> point_x = 0, point_y = 0 \<rparr>)
                    \<lparr> point_x = 0, point_y = 0 \<rparr> None None = Inr g"
  shows "renderElement ext manager chart (element, elementState) =
           ([Call_getMarkClass (markStateOf elementState),
             Call_getGraphics (CartesianCoordinates ext \<lparr> point_x = 0, point_y = 0 \<rparr>)
               \<lparr> point_x = 0, point_y = 0 \<rparr> None None],
            Inr (Group [g] None (Some (object_id element)) None)) \<and>
         (visible (properties element) \<longrightarrow>
            renderElements ext manager chart graphics ((element, elementState) # rest) =
              ([Call_getMarkClass (markStateOf elementState),
                Call_getGraphics (CartesianCoordinates ext \<lparr> point_x = 0, point_y = 0 \<rparr>)
                  \<lparr> point_x = 0, point_y = 0 \<rparr> None None]
               @ fst (renderElements ext manager chart
                        (graphics @ [Some (Group [g] None (Some (object_id element)) None)]) rest),
               snd (renderElements ext manager chart
                        (graphics @ [Some (Group [g] None (Some (object_id element)) None)]) rest)))"
proof -
  have one: "renderElement ext manager chart (element, elementState) =
           ([Call_getMarkClass (markStateOf elementState),
             Call_getGraphics (CartesianCoordinates ext \<lparr> point_x = 0, point_y = 0 \<rparr>)
               \<lparr> point_x = 0, point_y = 0 \<rparr> None None],
            Inr (Group [g] None (Some (object_id element)) None))"
    using kind cls drawn
    by (simp add: renderElement_def Let_def bnd_call_Inr ret_def keyed_group)
  then show ?thesis by (simp add: bnd_Inr)
qed

text \<open>The title of the example, whose mark class declines to draw.\<close>

theorem renderElement_single_mark_witness:
  "renderElement ex_ext (ex_manager ex_chart ex_chartState) ex_chart (ex_mark ''title'' True, ex_elementState 1) =
     ([Call_getMarkClass (markStateOf (ex_elementState 1)),
       Call_getGraphics ''cartesian'' \<lparr> point_x = 0, point_y = 0 \<rparr> None None],
      Inr (Group [None] None (Some ''title'') None)) \<and>
   snd (renderElements ex_ext (ex_manager ex_chart ex_chartState) ex_chart []
          [(ex_mark ''title'' True, ex_elementState 1)]) =
     Inr [Some (Group [None] None (Some ''title'') None)]"
proof -
  let ?m = "ex_manager ex_chart ex_chartState"
  have kind: "\<not> isType ex_ext (classID (ex_mark ''title'' True)) ''plot-segment''"
             "isType ex_ext (classID (ex_mark ''title'' True)) ''mark''"
    by (simp_all add: ex_simps)
  have cls: "getMarkClass ?m (markStateOf (ex_elementState 1)) = Inr (ex_markClass (markStateOf (ex_elementState 1)))"
    by (simp add: ex_manager_def)
  have drawn: "getGraphics (ex_markClass (markStateOf (ex_elementState 1)))
                 (CartesianCoordinates ex_ext \<lparr> point_x = 0, point_y = 0 \<rparr>)
                 \<lparr> point_x = 0, point_y = 0 \<rparr> None None = Inr None"
    by (simp add: ex_simps markStateOf_def)
  have vis: "visible (properties (ex_mark ''title'' True))" by (simp add: ex_simps)
  have cart: "CartesianCoordinates ex_ext \<lparr> point_x = 0, point_y = 0 \<rparr> = ''cartesian''"
    by (simp add: ex_ext_def)
  have name: "object_id (ex_mark ''title'' True) = ''title''" by (simp add: ex_mark_def)
  from renderElement_single_mark [OF kind cls drawn, of ex_chart "[]" "[]"] vis
  show ?thesis
    unfolding cart name by (simp add: ret_def bnd_Inr)
qed

end
